theory Spec2Isabelle
  imports Main "HOL-Library.Monad_Syntax"
begin

section \<open>Python values and built-ins used by the data model\<close>

text \<open>
  A Python \<^verbatim>\<open>str\<close> is modelled as a \<^typ>\<open>string\<close>, one \<^typ>\<open>char\<close> per code point,
  so \<^const>\<open>length\<close> is Python's \<^verbatim>\<open>len\<close>. The characters are the code points below
  256; the built-ins below (\<^verbatim>\<open>strip\<close>, \<^verbatim>\<open>lower\<close>, \<^verbatim>\<open>int\<close>) are written for
  that range, which they map into itself, and agree there with the interpreter.
\<close>

datatype py_error = ValueError | TypeError | AttributeError

text \<open>
  A value as \<^verbatim>\<open>json.load\<close> returns it and \<^verbatim>\<open>json.dump\<close> accepts it. A dictionary
  keeps its insertion order, so it is a list of pairs. A number with a fraction or an
  exponent is kept as its literal: no function here looks inside it.
\<close>

datatype json =
    JNull
  | JBool bool
  | JInt int
  | JFloat string
  | JStr string
  | JList "json list"
  | JObj "(string \<times> json) list"

type_synonym dict = "(string \<times> json) list"

text \<open>\<^verbatim>\<open>d[k] = v\<close>: an existing key keeps its place, a new key goes to the end.\<close>

fun setitem :: "('k \<times> 'v) list \<Rightarrow> 'k \<Rightarrow> 'v \<Rightarrow> ('k \<times> 'v) list" where
  "setitem [] k v = [(k, v)]"
| "setitem ((k', v') # d) k v =
     (if k' = k then (k, v) # d else (k', v') # setitem d k v)"

text \<open>\<^verbatim>\<open>if c: result[k] = v\<close>\<close>

definition put :: "bool \<Rightarrow> string \<Rightarrow> json \<Rightarrow> dict \<Rightarrow> dict" where
  "put c k v result = (if c then setitem result k v else result)"

definition startswith :: "string \<Rightarrow> string \<Rightarrow> bool" where
  "startswith s p = (take (length p) s = p)"

text \<open>\<^verbatim>\<open>s.lstrip('#')\<close> removes every leading \<^verbatim>\<open>#\<close>.\<close>

definition lstrip_hash :: "string \<Rightarrow> string" where
  "lstrip_hash s = dropWhile (\<lambda>c. c = CHR ''#'') s"

text \<open>
  \<^verbatim>\<open>str.isspace\<close> on one character: tab, line feed, vertical tab, form feed, carriage
  return, the four separators 0x1C to 0x1F, space, next line (0x85) and no-break space
  (0xA0).
\<close>

definition isspace :: "char \<Rightarrow> bool" where
  "isspace c = (c \<in> set [CHR 0x09, CHR 0x0A, CHR 0x0B, CHR 0x0C, CHR 0x0D,
                          CHR 0x1C, CHR 0x1D, CHR 0x1E, CHR 0x1F, CHR 0x20,
                          CHR 0x85, CHR 0xA0])"

definition strip :: "string \<Rightarrow> string" where
  "strip s = rev (dropWhile isspace (rev (dropWhile isspace s)))"

text \<open>
  \<^verbatim>\<open>int(s, 16)\<close>. The integer parser skips the six ASCII whitespace characters and,
  of the characters above 127, the two that are Unicode whitespace; the separators 0x1C to
  0x1F are not skipped. It then reads an optional sign, an optional \<^verbatim>\<open>0x\<close> or
  \<^verbatim>\<open>0X\<close> (after which one underscore may follow), and digits with single underscores
  between them. Anything else raises \<^verbatim>\<open>ValueError\<close>.
\<close>

definition int_space :: "char \<Rightarrow> bool" where
  "int_space c = (c \<in> set [CHR 0x09, CHR 0x0A, CHR 0x0B, CHR 0x0C, CHR 0x0D, CHR 0x20,
                            CHR 0x85, CHR 0xA0])"

definition digit_value :: "char \<Rightarrow> nat option" where
  "digit_value c =
     (let n = (of_char c :: nat) in
      if 48 \<le> n \<and> n \<le> 57 then Some (n - 48)
      else if 97 \<le> n \<and> n \<le> 102 then Some (n - 87)
      else if 65 \<le> n \<and> n \<le> 70 then Some (n - 55)
      else None)"

text \<open>
  The digit loop: \<open>prev\<close> is the character read before, \<open>acc\<close> the value so far. It
  stops at the first character that is neither a digit nor an underscore and returns the
  value with the unread rest; two underscores in a row or an underscore at the end are
  syntax errors.
\<close>

fun scan_digits :: "char \<Rightarrow> nat \<Rightarrow> string \<Rightarrow> (nat \<times> string) option" where
  "scan_digits prev acc [] = (if prev = CHR ''_'' then None else Some (acc, []))"
| "scan_digits prev acc (c # cs) =
     (if c = CHR ''_'' then (if prev = CHR ''_'' then None else scan_digits c acc cs)
      else case digit_value c of
             Some d \<Rightarrow> scan_digits c (16 * acc + d) cs
           | None \<Rightarrow> (if prev = CHR ''_'' then None else Some (acc, c # cs)))"

definition int16 :: "string \<Rightarrow> py_error + int" where
  "int16 s =
     (let s1 = dropWhile int_space s;
          sign = (if startswith s1 ''-'' then - 1 else 1 :: int);
          s2 = (if startswith s1 ''+'' \<or> startswith s1 ''-'' then tl s1 else s1);
          s3 = (if startswith s2 ''0x'' \<or> startswith s2 ''0X''
                then (if startswith (drop 2 s2) ''_'' then drop 3 s2 else drop 2 s2)
                else s2)
      in if startswith s3 ''_'' then Inl ValueError
         else case scan_digits (CHR 0x00) 0 s3 of
                None \<Rightarrow> Inl ValueError
              | Some (n, rest) \<Rightarrow>
                  if rest = s3 then Inl ValueError
                  else if dropWhile int_space rest \<noteq> [] then Inl ValueError
                  else Inr (sign * int n))"

text \<open>\<^verbatim>\<open>str(n)\<close> for a length or a position, which is never negative.\<close>

function str_nat :: "nat \<Rightarrow> string" where
  "str_nat n =
     (if n < 10 then [''0123456789'' ! n]
      else str_nat (n div 10) @ [''0123456789'' ! (n mod 10)])"
  by pat_completeness auto
termination
  by (relation "measure id") auto

declare str_nat.simps [simp del]

section \<open>EmbedField\<close>

record EmbedField =
  name :: string
  "value" :: string
  inline :: bool

definition MAX_TITLE :: nat where "MAX_TITLE = 256"
definition MAX_DESC :: nat where "MAX_DESC = 4096"
definition MAX_FIELDS :: nat where "MAX_FIELDS = 25"
definition MAX_FIELD_NAME :: nat where "MAX_FIELD_NAME = 256"
definition MAX_FIELD_VALUE :: nat where "MAX_FIELD_VALUE = 1024"
definition MAX_FOOTER :: nat where "MAX_FOOTER = 2048"
definition MAX_AUTHOR :: nat where "MAX_AUTHOR = 256"

text \<open>\<^verbatim>\<open>f"{what} too long ({n}/{limit})"\<close>\<close>

definition too_long :: "string \<Rightarrow> nat \<Rightarrow> nat \<Rightarrow> string" where
  "too_long what n limit = what @ '' too long ('' @ str_nat n @ ''/'' @ str_nat limit @ '')''"

text \<open>\<^verbatim>\<open>if c: errors.append(msg)\<close>\<close>

definition append_if :: "bool \<Rightarrow> string \<Rightarrow> string list \<Rightarrow> string list" where
  "append_if c msg errors = (if c then errors @ [msg] else errors)"

definition EmbedField_validate :: "EmbedField \<Rightarrow> string list" where
  "EmbedField_validate f =
     (let errors = [];
          errors = append_if (strip (name f) = []) ''Field name cannot be empty'' errors;
          errors = append_if (length (name f) > MAX_FIELD_NAME)
                     (too_long ''Field name'' (length (name f)) MAX_FIELD_NAME) errors;
          errors = append_if (strip (value f) = []) ''Field value cannot be empty'' errors;
          errors = append_if (length (value f) > MAX_FIELD_VALUE)
                     (too_long ''Field value'' (length (value f)) MAX_FIELD_VALUE) errors
      in errors)"

section \<open>Embed\<close>

record Embed =
  title :: string
  description :: string
  color :: string
  url :: string
  footer :: string
  footer_icon :: string
  author :: string
  author_icon :: string
  author_url :: string
  thumbnail :: string
  image :: string
  timestamp :: bool
  fields' :: "EmbedField list"

text \<open>\<^verbatim>\<open>Embed()\<close>: the defaults of the dataclass.\<close>

definition Embed_default :: Embed where
  "Embed_default =
     \<lparr>title = '''', description = '''', color = ''#5865F2'', url = '''', footer = '''',
      footer_icon = '''', author = '''', author_icon = '''', author_url = '''',
      thumbnail = '''', image = '''', timestamp = False, fields' = []\<rparr>"

text \<open>
  The loop over \<^verbatim>\<open>enumerate(self.fields)\<close>: \<open>i\<close> is the index of the first field of
  the list still to visit, \<open>errors\<close> the list built so far.
\<close>

fun validate_fields :: "nat \<Rightarrow> EmbedField list \<Rightarrow> string list \<Rightarrow> string list" where
  "validate_fields i [] errors = errors"
| "validate_fields i (f # fs) errors =
     validate_fields (i + 1) fs
       (errors @ map (\<lambda>err. ''Field '' @ str_nat (i + 1) @ '': '' @ err) (EmbedField_validate f))"

definition Embed_validate :: "Embed \<Rightarrow> string list" where
  "Embed_validate e =
     (let errors = [];
          errors = append_if (title e \<noteq> [] \<and> length (title e) > MAX_TITLE)
                     (too_long ''Title'' (length (title e)) MAX_TITLE) errors;
          errors = append_if (description e \<noteq> [] \<and> length (description e) > MAX_DESC)
                     (too_long ''Description'' (length (description e)) MAX_DESC) errors;
          errors = append_if (footer e \<noteq> [] \<and> length (footer e) > MAX_FOOTER)
                     (too_long ''Footer'' (length (footer e)) MAX_FOOTER) errors;
          errors = append_if (author e \<noteq> [] \<and> length (author e) > MAX_AUTHOR)
                     (too_long ''Author'' (length (author e)) MAX_AUTHOR) errors;
          errors = append_if (length (fields' e) > MAX_FIELDS)
                     (''Too many fields ('' @ str_nat (length (fields' e)) @ ''/''
                        @ str_nat MAX_FIELDS @ '')'') errors
      in validate_fields 0 (fields' e) errors)"

text \<open>\<^verbatim>\<open>s.startswith('http://') or s.startswith('https://')\<close>\<close>

definition http :: "string \<Rightarrow> bool" where
  "http s = (startswith s ''http://'' \<or> startswith s ''https://'')"

text \<open>
  The colour statement of \<^verbatim>\<open>to_dict\<close>, the only one that can raise:
  \<^verbatim>\<open>if self.color: result["color"] = int(self.color.lstrip('#'), 16) if self.color.startswith('#') else 0\<close>
\<close>

definition put_color :: "string \<Rightarrow> dict \<Rightarrow> py_error + dict" where
  "put_color c result =
     (if c \<noteq> [] then
        (if startswith c ''#'' then
           (case int16 (lstrip_hash c) of
              Inl err \<Rightarrow> Inl err
            | Inr n \<Rightarrow> Inr (setitem result ''color'' (JInt n)))
         else Inr (setitem result ''color'' (JInt 0)))
      else Inr result)"

definition field_dict :: "EmbedField \<Rightarrow> json" where
  "field_dict f =
     JObj [(''name'', JStr (name f)), (''value'', JStr (value f)), (''inline'', JBool (inline f))]"

text \<open>
  \<^verbatim>\<open>Embed.to_dict\<close>. \<open>now\<close> is \<^verbatim>\<open>datetime.utcnow().isoformat()\<close>, the clock
  being an input of the model.
\<close>

definition to_dict :: "string \<Rightarrow> Embed \<Rightarrow> py_error + dict" where
  "to_dict now e =
     (let result = [];
          result = put (title e \<noteq> []) ''title'' (JStr (title e)) result;
          result = put (description e \<noteq> []) ''description'' (JStr (description e)) result;
          result = put (url e \<noteq> [] \<and> http (url e)) ''url'' (JStr (url e)) result
      in case put_color (color e) result of
           Inl err \<Rightarrow> Inl err
         | Inr result \<Rightarrow>
            (let result =
                   put (footer e \<noteq> [] \<or> footer_icon e \<noteq> []) ''footer''
                     (JObj (put (footer_icon e \<noteq> [] \<and> http (footer_icon e)) ''icon_url''
                              (JStr (footer_icon e))
                           (put (footer e \<noteq> []) ''text'' (JStr (footer e)) []))) result;
                 result =
                   put (author e \<noteq> [] \<or> author_icon e \<noteq> [] \<or> author_url e \<noteq> []) ''author''
                     (JObj (put (author_url e \<noteq> [] \<and> http (author_url e)) ''url''
                              (JStr (author_url e))
                           (put (author_icon e \<noteq> [] \<and> http (author_icon e)) ''icon_url''
                              (JStr (author_icon e))
                           (put (author e \<noteq> []) ''name'' (JStr (author e)) [])))) result;
                 result = put (thumbnail e \<noteq> [] \<and> http (thumbnail e)) ''thumbnail''
                            (JObj [(''url'', JStr (thumbnail e))]) result;
                 result = put (image e \<noteq> [] \<and> http (image e)) ''image''
                            (JObj [(''url'', JStr (image e))]) result;
                 result = put (timestamp e) ''timestamp'' (JStr now) result;
                 result = put (fields' e \<noteq> []) ''fields'' (JList (map field_dict (fields' e))) result
             in Inr result))"

text \<open>
  The reading of "parsed as a base-16 integer" that the serialised colour is compared
  with: the positional value of a string of hexadecimal digits.
\<close>

definition hex_digits :: string where
  "hex_digits = ''0123456789abcdefABCDEF''"

definition hex_digit :: "char \<Rightarrow> nat" where
  "hex_digit c =
     (if c \<in> set ''0123456789'' then of_char c - of_char CHR ''0''
      else if c \<in> set ''abcdef'' then 10 + (of_char c - of_char CHR ''a'')
      else 10 + (of_char c - of_char CHR ''A''))"

definition base16 :: "string \<Rightarrow> nat" where
  "base16 hs = foldl (\<lambda>n c. 16 * n + hex_digit c) 0 hs"

section \<open>MessageButton\<close>

record MessageButton =
  label :: string
  url :: string
  style :: string
  emoji :: string
  disabled :: bool

text \<open>\<^verbatim>\<open>str.lower\<close>: the letters A to Z and the capital letters 0xC0 to 0xDE (without
  the multiplication sign 0xD7) move up by 32.\<close>

definition lower_char :: "char \<Rightarrow> char" where
  "lower_char c =
     (let n = (of_char c :: nat) in
      if (65 \<le> n \<and> n \<le> 90) \<or> (192 \<le> n \<and> n \<le> 222 \<and> n \<noteq> 215) then char_of (n + 32) else c)"

definition lower :: "string \<Rightarrow> string" where
  "lower s = map lower_char s"

text \<open>\<^verbatim>\<open>s.replace(' ', '_')\<close>\<close>

definition replace_space :: "string \<Rightarrow> string" where
  "replace_space s = map (\<lambda>c. if c = CHR '' '' then CHR ''_'' else c) s"

definition style_map :: "(string \<times> int) list" where
  "style_map = [(''primary'', 1), (''secondary'', 2), (''success'', 3), (''danger'', 4)]"

text \<open>The two branches of \<^verbatim>\<open>if self.style == "link" and self.url:\<close>\<close>

definition put_style :: "MessageButton \<Rightarrow> dict \<Rightarrow> dict" where
  "put_style b result =
     (if style b = ''link'' \<and> MessageButton.url b \<noteq> [] then
        setitem (setitem result ''style'' (JInt 5)) ''url'' (JStr (MessageButton.url b))
      else
        setitem
          (setitem result ''style''
             (JInt (case map_of style_map (style b) of Some n \<Rightarrow> n | None \<Rightarrow> 1)))
          ''custom_id'' (JStr (''btn_'' @ replace_space (lower (label b)))))"

definition MessageButton_to_dict :: "MessageButton \<Rightarrow> dict" where
  "MessageButton_to_dict b =
     (let result = [(''type'', JInt 2)];
          result = put (label b \<noteq> []) ''label'' (JStr (label b)) result;
          result = put_style b result;
          result = put (emoji b \<noteq> [] \<and> strip (emoji b) \<noteq> []) ''emoji''
                     (JObj [(''name'', JStr (emoji b))]) result;
          result = put (disabled b) ''disabled'' (JBool True) result
      in result)"

definition MessageButton_validate :: "MessageButton \<Rightarrow> string list" where
  "MessageButton_validate b =
     (let errors = [];
          errors = append_if (label b = []) ''Button label is required'' errors;
          errors = append_if (length (label b) > 80)
                     (too_long ''Button label'' (length (label b)) 80) errors;
          errors = append_if (style b = ''link'' \<and> MessageButton.url b = [])
                     ''Link buttons require a URL'' errors
      in errors)"

section \<open>The history file\<close>

text \<open>\<^verbatim>\<open>dataclasses.asdict\<close>\<close>

definition EmbedField_asdict :: "EmbedField \<Rightarrow> json" where
  "EmbedField_asdict f =
     JObj [(''name'', JStr (name f)), (''value'', JStr (value f)), (''inline'', JBool (inline f))]"

definition asdict :: "Embed \<Rightarrow> json" where
  "asdict e =
     JObj [(''title'', JStr (title e)), (''description'', JStr (description e)),
           (''color'', JStr (color e)), (''url'', JStr (Embed.url e)),
           (''footer'', JStr (footer e)), (''footer_icon'', JStr (footer_icon e)),
           (''author'', JStr (author e)), (''author_icon'', JStr (author_icon e)),
           (''author_url'', JStr (author_url e)), (''thumbnail'', JStr (thumbnail e)),
           (''image'', JStr (image e)), (''timestamp'', JBool (timestamp e)),
           (''fields'', JList (map EmbedField_asdict (fields' e)))]"

text \<open>
  The file \<^verbatim>\<open>embed_history.json\<close>: it does not exist, or reading it raises (it cannot
  be opened or is not JSON), or it holds a value. \<^verbatim>\<open>json.dump\<close> followed by
  \<^verbatim>\<open>json.load\<close> gives the value back, so the file is modelled by the value it holds.
\<close>

datatype store = Missing | Unreadable | Content json

text \<open>
  What the operating system does with a write: it succeeds, or \<^verbatim>\<open>open\<close> raises and
  the file stays as it was, or the write raises midway and leaves a file that is not JSON.
\<close>

datatype write_outcome = Written | Open_raises | Dump_raises

text \<open>\<^verbatim>\<open>save_history\<close>; the exception is logged and swallowed.\<close>

definition save_history :: "write_outcome \<Rightarrow> Embed list \<Rightarrow> store \<Rightarrow> store" where
  "save_history w history f =
     (case w of
        Written \<Rightarrow> Content (JList (map asdict (drop (length history - 50) history)))
      | Open_raises \<Rightarrow> f
      | Dump_raises \<Rightarrow> Unreadable)"

text \<open>
  A \<^verbatim>\<open>for\<close> loop over a loaded value: a list gives its elements, a string its
  characters, a dictionary its keys; nothing else is iterable.
\<close>

definition iterate :: "json \<Rightarrow> py_error + json list" where
  "iterate v =
     (case v of
        JList xs \<Rightarrow> Inr xs
      | JStr s \<Rightarrow> Inr (map (\<lambda>c. JStr [c]) s)
      | JObj d \<Rightarrow> Inr (map (\<lambda>kv. JStr (fst kv)) d)
      | _ \<Rightarrow> Inl TypeError)"

text \<open>
  A dataclass does not check the annotations of its attributes: \<^verbatim>\<open>Embed(title=5)\<close>
  builds an object. The records above are typed, so a constructor call returns
  \<open>Inl err\<close> when Python raises, \<open>Inr (Some x)\<close> when it builds an object whose attributes
  have their declared types, and \<open>Inr None\<close> when it builds an object that has an
  attribute of another type.
\<close>

fun as_str :: "json \<Rightarrow> string option" where
  "as_str (JStr s) = Some s"
| "as_str _ = None"

fun as_bool :: "json \<Rightarrow> bool option" where
  "as_bool (JBool b) = Some b"
| "as_bool _ = None"

text \<open>A keyword argument with a default.\<close>

definition kwarg :: "dict \<Rightarrow> string \<Rightarrow> json \<Rightarrow> json" where
  "kwarg kw k dflt = (case map_of kw k of Some v \<Rightarrow> v | None \<Rightarrow> dflt)"

text \<open>
  \<^verbatim>\<open>EmbedField(**f)\<close>: \<open>f\<close> must be a dictionary, every key must be a parameter, and
  \<^verbatim>\<open>name\<close> and \<^verbatim>\<open>value\<close> have no default.
\<close>

definition EmbedField_init :: "json \<Rightarrow> py_error + EmbedField option" where
  "EmbedField_init f =
     (case f of
        JObj kw \<Rightarrow>
          if \<not> list_all (\<lambda>k. k \<in> set [''name'', ''value'', ''inline'']) (map fst kw)
          then Inl TypeError
          else if map_of kw ''name'' = None \<or> map_of kw ''value'' = None then Inl TypeError
          else Inr (do {
                 n \<leftarrow> as_str (kwarg kw ''name'' JNull);
                 v \<leftarrow> as_str (kwarg kw ''value'' JNull);
                 i \<leftarrow> as_bool (kwarg kw ''inline'' (JBool False));
                 Some \<lparr>name = n, value = v, inline = i\<rparr> })
      | _ \<Rightarrow> Inl TypeError)"

text \<open>
  A list comprehension or a loop that builds one object per element: the first raise ends
  it.
\<close>

fun build_all :: "('a \<Rightarrow> py_error + 'b option) \<Rightarrow> 'a list \<Rightarrow> py_error + 'b list option" where
  "build_all f [] = Inr (Some [])"
| "build_all f (x # xs) =
     (case f x of
        Inl err \<Rightarrow> Inl err
      | Inr y \<Rightarrow>
          (case build_all f xs of
             Inl err \<Rightarrow> Inl err
           | Inr ys \<Rightarrow> Inr (do { y' \<leftarrow> y; ys' \<leftarrow> ys; Some (y' # ys') })))"

definition Embed_params :: "string list" where
  "Embed_params =
     [''title'', ''description'', ''color'', ''url'', ''footer'', ''footer_icon'', ''author'',
      ''author_icon'', ''author_url'', ''thumbnail'', ''image'', ''timestamp'', ''fields'']"

text \<open>
  \<^verbatim>\<open>Embed(**item)\<close> after \<^verbatim>\<open>item["fields"] = fields\<close>: \<open>fs\<close> is the list of field
  objects that the assignment has put under the key \<^verbatim>\<open>fields\<close>.
\<close>

definition Embed_init :: "dict \<Rightarrow> EmbedField list option \<Rightarrow> py_error + Embed option" where
  "Embed_init kw fs =
     (if \<not> list_all (\<lambda>k. k \<in> set Embed_params) (map fst kw) then Inl TypeError
      else Inr (do {
             t \<leftarrow> as_str (kwarg kw ''title'' (JStr ''''));
             d \<leftarrow> as_str (kwarg kw ''description'' (JStr ''''));
             c \<leftarrow> as_str (kwarg kw ''color'' (JStr ''#5865F2''));
             u \<leftarrow> as_str (kwarg kw ''url'' (JStr ''''));
             fo \<leftarrow> as_str (kwarg kw ''footer'' (JStr ''''));
             foi \<leftarrow> as_str (kwarg kw ''footer_icon'' (JStr ''''));
             a \<leftarrow> as_str (kwarg kw ''author'' (JStr ''''));
             ai \<leftarrow> as_str (kwarg kw ''author_icon'' (JStr ''''));
             au \<leftarrow> as_str (kwarg kw ''author_url'' (JStr ''''));
             th \<leftarrow> as_str (kwarg kw ''thumbnail'' (JStr ''''));
             im \<leftarrow> as_str (kwarg kw ''image'' (JStr ''''));
             ts \<leftarrow> as_bool (kwarg kw ''timestamp'' (JBool False));
             fs' \<leftarrow> fs;
             Some \<lparr>title = t, description = d, color = c, url = u, footer = fo,
                   footer_icon = foi, author = a, author_icon = ai, author_url = au,
                   thumbnail = th, image = im, timestamp = ts, fields' = fs'\<rparr> }))"

text \<open>
  The body of the loop of \<^verbatim>\<open>load_history\<close>: \<^verbatim>\<open>item.get\<close> needs a dictionary.
\<close>

definition decode_item :: "json \<Rightarrow> py_error + Embed option" where
  "decode_item item =
     (case item of
        JObj kw \<Rightarrow>
          (case iterate (kwarg kw ''fields'' (JList [])) of
             Inl err \<Rightarrow> Inl err
           | Inr fl \<Rightarrow>
               (case build_all EmbedField_init fl of
                  Inl err \<Rightarrow> Inl err
                | Inr fs \<Rightarrow> Embed_init kw fs))
      | _ \<Rightarrow> Inl AttributeError)"

text \<open>
  \<^verbatim>\<open>load_history\<close>: \<open>history\<close> is the list before the call, the result the list after
  it (\<open>None\<close>: it holds an object with an attribute of another type than declared).
\<close>

definition load_history :: "store \<Rightarrow> Embed list \<Rightarrow> Embed list option" where
  "load_history f history =
     (case f of
        Missing \<Rightarrow> Some history
      | Unreadable \<Rightarrow> Some []
      | Content data \<Rightarrow>
          (case iterate data of
             Inl err \<Rightarrow> Some []
           | Inr items \<Rightarrow>
               (case build_all decode_item items of
                  Inl err \<Rightarrow> Some []
                | Inr hs \<Rightarrow> hs)))"

text \<open>The entries of the history file, none when it does not hold a list.\<close>

definition entries :: "store \<Rightarrow> json list" where
  "entries f = (case f of Content (JList xs) \<Rightarrow> xs | _ \<Rightarrow> [])"

text \<open>
  Documents that decode, described without the decoder. A document is well formed when
  every key is an attribute of \<^verbatim>\<open>Embed\<close>, every value that is there has the type of
  its attribute, and every element of \<^verbatim>\<open>fields\<close> is a dictionary with the strings
  \<^verbatim>\<open>name\<close> and \<^verbatim>\<open>value\<close>, possibly the boolean \<^verbatim>\<open>inline\<close>, and no other
  key. \<open>embed_of\<close> is the embed such a document stands for: the stored value of each
  attribute, the default of the dataclass for a key that is missing, and the fields in the
  order of the list.
\<close>

definition stored_str :: "dict \<Rightarrow> string \<Rightarrow> string \<Rightarrow> string" where
  "stored_str kw k dflt = (case map_of kw k of Some (JStr s) \<Rightarrow> s | _ \<Rightarrow> dflt)"

definition stored_bool :: "dict \<Rightarrow> string \<Rightarrow> bool \<Rightarrow> bool" where
  "stored_bool kw k dflt = (case map_of kw k of Some (JBool b) \<Rightarrow> b | _ \<Rightarrow> dflt)"

definition stored_list :: "dict \<Rightarrow> string \<Rightarrow> json list" where
  "stored_list kw k = (case map_of kw k of Some (JList xs) \<Rightarrow> xs | _ \<Rightarrow> [])"

definition str_or_missing :: "dict \<Rightarrow> string \<Rightarrow> bool" where
  "str_or_missing kw k = (case map_of kw k of None \<Rightarrow> True | Some (JStr s) \<Rightarrow> True | _ \<Rightarrow> False)"

definition bool_or_missing :: "dict \<Rightarrow> string \<Rightarrow> bool" where
  "bool_or_missing kw k = (case map_of kw k of None \<Rightarrow> True | Some (JBool b) \<Rightarrow> True | _ \<Rightarrow> False)"

definition list_or_missing :: "dict \<Rightarrow> string \<Rightarrow> bool" where
  "list_or_missing kw k = (case map_of kw k of None \<Rightarrow> True | Some (JList xs) \<Rightarrow> True | _ \<Rightarrow> False)"

fun well_formed_field :: "json \<Rightarrow> bool" where
  "well_formed_field (JObj kw) =
     (list_all (\<lambda>k. k \<in> set [''name'', ''value'', ''inline'']) (map fst kw)
      \<and> map_of kw ''name'' \<noteq> None \<and> str_or_missing kw ''name''
      \<and> map_of kw ''value'' \<noteq> None \<and> str_or_missing kw ''value''
      \<and> bool_or_missing kw ''inline'')"
| "well_formed_field _ = False"

fun field_of :: "json \<Rightarrow> EmbedField" where
  "field_of (JObj kw) =
     \<lparr>name = stored_str kw ''name'' '''', value = stored_str kw ''value'' '''',
      inline = stored_bool kw ''inline'' False\<rparr>"
| "field_of _ = \<lparr>name = '''', value = '''', inline = False\<rparr>"

definition well_formed :: "dict \<Rightarrow> bool" where
  "well_formed kw =
     (list_all (\<lambda>k. k \<in> set Embed_params) (map fst kw)
      \<and> list_all (str_or_missing kw)
            [''title'', ''description'', ''color'', ''url'', ''footer'', ''footer_icon'',
             ''author'', ''author_icon'', ''author_url'', ''thumbnail'', ''image'']
      \<and> bool_or_missing kw ''timestamp''
      \<and> list_or_missing kw ''fields''
      \<and> list_all well_formed_field (stored_list kw ''fields''))"

definition embed_of :: "dict \<Rightarrow> Embed" where
  "embed_of kw =
     \<lparr>title = stored_str kw ''title'' '''',
      description = stored_str kw ''description'' '''',
      color = stored_str kw ''color'' ''#5865F2'',
      url = stored_str kw ''url'' '''',
      footer = stored_str kw ''footer'' '''',
      footer_icon = stored_str kw ''footer_icon'' '''',
      author = stored_str kw ''author'' '''',
      author_icon = stored_str kw ''author_icon'' '''',
      author_url = stored_str kw ''author_url'' '''',
      thumbnail = stored_str kw ''thumbnail'' '''',
      image = stored_str kw ''image'' '''',
      timestamp = stored_bool kw ''timestamp'' False,
      fields' = map field_of (stored_list kw ''fields'')\<rparr>"

section \<open>Sending to the webhook\<close>

datatype dialog =
    Showinfo string string
  | Showwarning string string
  | Showerror string string

text \<open>
  The two pictographs of the message texts, U+274C and U+2705, lie beyond the characters
  of \<^typ>\<open>string\<close>; they stand here as their UTF-8 bytes. They are only displayed.
\<close>

definition cross_mark :: string where
  "cross_mark = [CHR 0xE2, CHR 0x9D, CHR 0x8C]"

definition check_mark :: string where
  "check_mark = [CHR 0xE2, CHR 0x9C, CHR 0x85]"

definition str_int :: "int \<Rightarrow> string" where
  "str_int i = (if i < 0 then ''-'' @ str_nat (nat (- i)) else str_nat (nat i))"

text \<open>\<^verbatim>\<open>sub in s\<close>\<close>

definition contains :: "string \<Rightarrow> string \<Rightarrow> bool" where
  "contains s sub = list_ex (\<lambda>i. startswith (drop i s) sub) [0..<Suc (length s)]"

text \<open>
  The closure \<^verbatim>\<open>send\<close> of the dialog, on the texts of the three entries: it shows a
  message and leaves the dialog open, or stores \<^verbatim>\<open>url\<close>, \<^verbatim>\<open>username\<close> and
  \<^verbatim>\<open>avatar_url\<close> in \<^verbatim>\<open>result_data\<close>.
\<close>

definition send :: "string \<Rightarrow> string \<Rightarrow> string \<Rightarrow> dialog + (string \<times> string \<times> string)" where
  "send url_entry username_entry avatar_entry =
     (let url = strip url_entry in
      if url = [] then Inl (Showwarning ''Required'' ''Webhook URL is required'')
      else if \<not> contains url ''discord.com/api/webhooks/''
              \<and> \<not> contains url ''discordapp.com/api/webhooks/''
      then Inl (Showerror ''Invalid URL'' ''Please enter a valid Discord webhook URL'')
      else
        (let avatar_url = strip avatar_entry in
         if avatar_url \<noteq> []
            \<and> \<not> (startswith avatar_url ''http://'' \<or> startswith avatar_url ''https://'')
         then Inl (Showerror ''Invalid URL'' ''Avatar URL must start with http:// or https://'')
         else Inr (url, strip username_entry, avatar_url)))"

text \<open>
  What \<^verbatim>\<open>requests.post\<close> does is an input of the model: it returns a response, of
  which the code reads the status code, \<^verbatim>\<open>json()\<close> (\<open>None\<close> when that raises) and
  \<^verbatim>\<open>text\<close>, or it raises an exception \<open>e\<close>, of which the code reads \<^verbatim>\<open>str(e)\<close>.
\<close>

record response =
  status_code :: int
  body_json :: "json option"
  "text" :: string

datatype posted = Responded response | Raised string

text \<open>
  A value inside an f-string: a string stands for itself; \<open>py_str\<close> is \<^verbatim>\<open>str\<close> on the
  other values, a parameter of the model, as is \<open>json_dumps\<close>, which is
  \<^verbatim>\<open>json.dumps(v, indent=2)\<close>.
\<close>

definition format_value :: "(json \<Rightarrow> string) \<Rightarrow> json \<Rightarrow> string" where
  "format_value py_str v = (case v of JStr s \<Rightarrow> s | _ \<Rightarrow> py_str v)"

text \<open>
  The text of the error dialog for a status other than 200 and 204. \<^verbatim>\<open>error_json.get\<close>
  raises when the body is JSON but not a dictionary, and the bare \<^verbatim>\<open>except\<close> then
  shows the raw text as it does when the body is not JSON.
\<close>

definition error_msg :: "(json \<Rightarrow> string) \<Rightarrow> (json \<Rightarrow> string) \<Rightarrow> response \<Rightarrow> string" where
  "error_msg py_str json_dumps r =
     (let error_msg = cross_mark @ '' Discord returned an error:\<newline>\<newline>'';
          error_msg = error_msg @ ''Status Code: '' @ str_int (status_code r) @ ''\<newline>\<newline>''
      in case body_json r of
           Some (JObj error_json) \<Rightarrow>
             (let error_msg = error_msg @ ''Error: ''
                    @ format_value py_str (kwarg error_json ''message'' (JStr ''Unknown error''))
                    @ ''\<newline>\<newline>''
              in case map_of error_json ''errors'' of
                   Some errors \<Rightarrow> error_msg @ ''Details:\<newline>'' @ json_dumps errors
                 | None \<Rightarrow> error_msg)
         | _ \<Rightarrow> error_msg @ ''Response: '' @ take 300 (text r))"

text \<open>
  The objects of the program. \<^verbatim>\<open>self.current_embed\<close> and the elements of
  \<^verbatim>\<open>self.history\<close> are references to \<^verbatim>\<open>Embed\<close> objects, and an object is changed
  in place, so the state holds the objects in a heap, addressed by their position, and the
  two attributes hold addresses. A new object goes to the end of the heap.
\<close>

record app =
  heap :: "Embed list"
  current_embed :: nat
  history :: "nat list"
  history_file :: store

text \<open>The embeds that the history refers to, as \<^verbatim>\<open>save_history\<close> reads them.\<close>

definition history_embeds :: "app \<Rightarrow> Embed list" where
  "history_embeds a = map (\<lambda>r. heap a ! r) (history a)"

definition build_payload :: "dict \<Rightarrow> string \<Rightarrow> string \<Rightarrow> dict" where
  "build_payload embed_dict username avatar_url =
     (let payload = [(''embeds'', JList [JObj embed_dict])];
          payload = put (username \<noteq> []) ''username'' (JStr username) payload;
          payload = put (avatar_url \<noteq> []) ''avatar_url'' (JStr avatar_url) payload
      in payload)"

text \<open>
  \<^verbatim>\<open>self.history.append(copy.deepcopy(self.current_embed))\<close> followed by
  \<^verbatim>\<open>self.save_history()\<close>: the copy is a new object with the value of the current one.
\<close>

definition append_copy :: "write_outcome \<Rightarrow> app \<Rightarrow> app" where
  "append_copy w a =
     (let a' = a\<lparr>heap := heap a @ [heap a ! current_embed a],
                 history := history a @ [length (heap a)]\<rparr>
      in a'\<lparr>history_file := save_history w (history_embeds a') (history_file a')\<rparr>)"

text \<open>
  \<^verbatim>\<open>send_webhook\<close> from "Build payload" on. The inputs are the clock \<open>now\<close>, the
  \<^verbatim>\<open>result_data\<close> of the dialog, what the POST does and what the write of the history
  file does. The result is the exception that \<^verbatim>\<open>to_dict\<close> raises (the call stands
  before the \<^verbatim>\<open>try\<close>), or the list of the requests posted, the dialog shown and the
  new state. The optional window that displays the payload before sending changes nothing
  and is left out.
\<close>

definition send_webhook ::
  "(json \<Rightarrow> string) \<Rightarrow> (json \<Rightarrow> string) \<Rightarrow> string \<Rightarrow> string \<times> string \<times> string \<Rightarrow> posted
     \<Rightarrow> write_outcome \<Rightarrow> app \<Rightarrow> py_error + ((string \<times> dict) list \<times> dialog \<times> app)" where
  "send_webhook py_str json_dumps now result_data reply w a =
     (case result_data of (webhook_url, username, avatar_url) \<Rightarrow>
        (case to_dict now (heap a ! current_embed a) of
           Inl err \<Rightarrow> Inl err
         | Inr embed_dict \<Rightarrow>
            (let payload = build_payload embed_dict username avatar_url;
                 requests = [(webhook_url, payload)]
             in case reply of
                  Responded r \<Rightarrow>
                    if status_code r = 200 \<or> status_code r = 204 then
                      Inr (requests,
                           Showinfo ''Success''
                             (check_mark @ '' Embed sent successfully!\<newline>\<newline>''
                                @ ''Check your Discord channel.''),
                           append_copy w a)
                    else
                      Inr (requests,
                           Showerror ''Discord Error'' (error_msg py_str json_dumps r), a)
                | Raised cause \<Rightarrow>
                    Inr (requests,
                         Showerror ''Network Error''
                           (cross_mark @ '' Failed to send webhook:\<newline>\<newline>'' @ cause
                              @ ''\<newline>\<newline>Check your internet connection and webhook URL.''),
                         a))))"

text \<open>The texts and the check box of the editor that \<^verbatim>\<open>sync_embed_from_ui\<close> reads.\<close>

record ui =
  title_entry :: string
  desc_text :: string
  url_entry :: string
  color_entry :: string
  author_entry :: string
  author_icon_entry :: string
  author_url_entry :: string
  footer_entry :: string
  footer_icon_entry :: string
  thumbnail_entry :: string
  image_entry :: string
  timestamp_var :: bool

text \<open>
  \<^verbatim>\<open>sync_embed_from_ui\<close> assigns twelve attributes of the current object and leaves
  its fields.
\<close>

definition sync_embed_from_ui :: "ui \<Rightarrow> Embed \<Rightarrow> Embed" where
  "sync_embed_from_ui u e =
     e\<lparr>title := strip (title_entry u),
       description := strip (desc_text u),
       Embed.url := strip (url_entry u),
       color := (if strip (color_entry u) \<noteq> [] then strip (color_entry u) else ''#5865F2''),
       author := strip (author_entry u),
       author_icon := strip (author_icon_entry u),
       author_url := strip (author_url_entry u),
       footer := strip (footer_entry u),
       footer_icon := strip (footer_icon_entry u),
       thumbnail := strip (thumbnail_entry u),
       image := strip (image_entry u),
       timestamp := timestamp_var u\<rparr>"

text \<open>An assignment to the current object, in place.\<close>

definition mutate :: "(Embed \<Rightarrow> Embed) \<Rightarrow> app \<Rightarrow> app" where
  "mutate f a = a\<lparr>heap := (heap a)[current_embed a := f (heap a ! current_embed a)]\<rparr>"

text \<open>\<^verbatim>\<open>self.current_embed = Embed(...)\<close>: a new object becomes the current one.\<close>

definition replace_current :: "Embed \<Rightarrow> app \<Rightarrow> app" where
  "replace_current e a = a\<lparr>heap := heap a @ [e], current_embed := length (heap a)\<rparr>"

text \<open>
  One use of the send button: the texts of the editor, whether the user goes on when
  validation has found errors, the \<^verbatim>\<open>result_data\<close> of the dialog (\<open>None\<close> when it
  is cancelled), the clock, what the POST does and what the write of the history file
  does.
\<close>

record step =
  entered :: ui
  send_anyway :: bool
  result_data :: "(string \<times> string \<times> string) option"
  clock :: string
  reply :: posted
  written :: write_outcome

text \<open>
  What the user and the timer do to the state. \<open>Sync\<close> is a call of
  \<^verbatim>\<open>sync_embed_from_ui\<close> outside a send (the auto-save timer, the exports);
  \<open>Edit_fields\<close> is the field editor, which changes the field list of the current
  object in place; \<open>Clear_all\<close> and \<open>Load_template\<close> assign a new object;
  \<open>Restore\<close> is \<^verbatim>\<open>restore_from_history\<close>, which makes the chosen history entry
  itself the current object: the history window has a card for each of the last 20
  entries, the most recent first, and \<open>Restore i\<close> is the button of card \<open>i\<close>;
  \<open>Clear_history\<close> empties the history and saves it.
\<close>

datatype event =
    Sync ui
  | Edit_fields "EmbedField list"
  | Clear_all
  | Load_template Embed
  | Restore nat
  | Clear_history write_outcome
  | Send step

text \<open>
  The whole of \<^verbatim>\<open>send_webhook\<close>. An exception that leaves it ends the callback, not
  the program: the state is as the callback has left it.
\<close>

definition press_send :: "(json \<Rightarrow> string) \<Rightarrow> (json \<Rightarrow> string) \<Rightarrow> step \<Rightarrow> app \<Rightarrow> app" where
  "press_send py_str json_dumps s a =
     (let a = mutate (sync_embed_from_ui (entered s)) a
      in if Embed_validate (heap a ! current_embed a) \<noteq> [] \<and> \<not> send_anyway s then a
         else case result_data s of
                None \<Rightarrow> a
              | Some data \<Rightarrow>
                  (case send_webhook py_str json_dumps (clock s) data (reply s) (written s) a of
                     Inl err \<Rightarrow> a
                   | Inr (requests, shown, a') \<Rightarrow> a'))"

fun handle :: "(json \<Rightarrow> string) \<Rightarrow> (json \<Rightarrow> string) \<Rightarrow> event \<Rightarrow> app \<Rightarrow> app" where
  "handle py_str json_dumps (Sync u) a = mutate (sync_embed_from_ui u) a"
| "handle py_str json_dumps (Edit_fields fs) a = mutate (\<lambda>e. e\<lparr>fields' := fs\<rparr>) a"
| "handle py_str json_dumps Clear_all a = replace_current Embed_default a"
| "handle py_str json_dumps (Load_template e) a = replace_current e a"
| "handle py_str json_dumps (Restore i) a =
     (let cards = rev (drop (length (history a) - 20) (history a))
      in if i < length cards then a\<lparr>current_embed := cards ! i\<rparr> else a)"
| "handle py_str json_dumps (Clear_history w) a =
     (let a' = a\<lparr>history := []\<rparr>
      in a'\<lparr>history_file := save_history w (history_embeds a') (history_file a')\<rparr>)"
| "handle py_str json_dumps (Send s) a = press_send py_str json_dumps s a"

fun run :: "(json \<Rightarrow> string) \<Rightarrow> (json \<Rightarrow> string) \<Rightarrow> event list \<Rightarrow> app \<Rightarrow> app" where
  "run py_str json_dumps [] a = a"
| "run py_str json_dumps (ev # evs) a = run py_str json_dumps evs (handle py_str json_dumps ev a)"

text \<open>
  A send is delivered when it is not cancelled, the payload is built and the webhook
  answers 200 or 204. Whether \<^verbatim>\<open>to_dict\<close> raises depends on the colour alone, and
  the colour, like whether validation finds errors in the twelve attributes, comes from the
  editor; only the field list comes from the state, so this is said of the object that the
  send has synchronised.
\<close>

definition delivered :: "step \<Rightarrow> Embed \<Rightarrow> bool" where
  "delivered s e =
     ((Embed_validate e = [] \<or> send_anyway s)
      \<and> result_data s \<noteq> None
      \<and> \<not> isl (to_dict (clock s) e)
      \<and> (case reply s of
            Responded r \<Rightarrow> status_code r = 200 \<or> status_code r = 204
          | Raised cause \<Rightarrow> False))"

text \<open>
  The number of sends delivered since the history was last cleared: \<open>n\<close> before the
  event, in the state \<open>a\<close>, and the result after it.
\<close>

fun tally :: "event \<Rightarrow> app \<Rightarrow> nat \<Rightarrow> nat" where
  "tally (Send s) a n =
     (if delivered s (sync_embed_from_ui (entered s) (heap a ! current_embed a)) then n + 1
      else n)"
| "tally (Clear_history w) a n = 0"
| "tally ev a n = n"

fun delivered_sends ::
  "(json \<Rightarrow> string) \<Rightarrow> (json \<Rightarrow> string) \<Rightarrow> event list \<Rightarrow> app \<Rightarrow> nat \<Rightarrow> nat" where
  "delivered_sends py_str json_dumps [] a n = n"
| "delivered_sends py_str json_dumps (ev # evs) a n =
     delivered_sends py_str json_dumps evs (handle py_str json_dumps ev a) (tally ev a n)"

text \<open>The writes of the history file succeed.\<close>

fun reliable :: "event \<Rightarrow> bool" where
  "reliable (Send s) = (written s = Written)"
| "reliable (Clear_history w) = (w = Written)"
| "reliable ev = True"

fun is_restore :: "event \<Rightarrow> bool" where
  "is_restore (Restore i) = True"
| "is_restore ev = False"

text \<open>
  Every address in use is allocated, and the history refers to its objects in the order
  in which they were made.
\<close>

definition allocated :: "app \<Rightarrow> bool" where
  "allocated a =
     (current_embed a < length (heap a)
      \<and> list_all (\<lambda>r. r < length (heap a)) (history a)
      \<and> sorted_wrt (<) (history a))"

text \<open>The state of the application when it starts and no history file exists.\<close>

definition first_start :: app where
  "first_start = \<lparr>heap = [Embed_default], current_embed = 0, history = [], history_file = Missing\<rparr>"

text \<open>
  An example of a use of the send button: the editor holds the title \<open>t\<close> and nothing
  else, the dialog is accepted, and the webhook answers 204.
\<close>

definition send_titled :: "string \<Rightarrow> step" where
  "send_titled t =
     \<lparr>entered = \<lparr>title_entry = t, desc_text = '''', url_entry = '''', color_entry = '''',
                 author_entry = '''', author_icon_entry = '''', author_url_entry = '''',
                 footer_entry = '''', footer_icon_entry = '''', thumbnail_entry = '''',
                 image_entry = '''', timestamp_var = False\<rparr>,
      send_anyway = False,
      result_data = Some (''https://discord.com/api/webhooks/1/t'', '''', ''''),
      clock = ''2024-01-01T00:00:00'',
      reply = Responded \<lparr>status_code = 204, body_json = None, text = ''''\<rparr>,
      written = Written\<rparr>"

section \<open>Serialisation of an embed\<close>

lemma map_of_setitem: "map_of (setitem d k v) k' = (if k' = k then Some v else map_of d k')"
  by (induction d k v rule: setitem.induct) auto

lemma map_of_put: "map_of (put c k v d) k' = (if c \<and> k' = k then Some v else map_of d k')"
  by (simp add: put_def map_of_setitem)

lemma put_color_other:
  "put_color c r = Inr r' \<Longrightarrow> k \<noteq> ''color'' \<Longrightarrow> map_of r' k = map_of r k"
  by (auto simp: put_color_def map_of_setitem split: sum.splits if_splits)

lemma put_color_color:
  "put_color c r = Inr r' \<Longrightarrow>
   map_of r' ''color'' =
     (if c = [] then map_of r ''color''
      else if startswith c ''#''
           then map_option JInt (case int16 (lstrip_hash c) of Inl _ \<Rightarrow> None | Inr n \<Rightarrow> Some n)
           else Some (JInt 0))"
  by (auto simp: put_color_def map_of_setitem split: sum.splits if_splits)

text \<open>The only way \<^const>\<open>to_dict\<close> raises: the colour starts with \<^verbatim>\<open>#\<close> and is not a number.\<close>

lemma to_dict_Inl:
  "to_dict now e = Inl err \<longleftrightarrow>
   color e \<noteq> [] \<and> startswith (color e) ''#'' \<and> int16 (lstrip_hash (color e)) = Inl err"
  unfolding to_dict_def Let_def put_color_def
  by (auto split: sum.splits)

lemma to_dict_returns:
  "color e = [] \<or> \<not> startswith (color e) ''#'' \<or> int16 (lstrip_hash (color e)) = Inr n \<Longrightarrow>
   \<exists>result. to_dict now e = Inr result"
  by (cases "to_dict now e") (auto simp: to_dict_Inl)

lemma lookup_color:
  "to_dict now e = Inr result \<Longrightarrow>
   map_of result ''color'' =
     (if color e = [] then None
      else if startswith (color e) ''#''
           then map_option JInt
                  (case int16 (lstrip_hash (color e)) of Inl _ \<Rightarrow> None | Inr n \<Rightarrow> Some n)
           else Some (JInt 0))"
  by (auto simp: to_dict_def Let_def map_of_put put_color_color split: sum.splits)

text \<open>
  C10. For an embed whose colour is not empty and does not start with \<^verbatim>\<open>#\<close>,
  \<^verbatim>\<open>to_dict\<close> returns a payload (it does not raise) and the payload has the key
  \<^verbatim>\<open>color\<close> with the value 0: the colour is neither parsed nor left out.
\<close>

theorem color_without_hash_is_zero:
  assumes "color e \<noteq> []" and "\<not> startswith (color e) ''#''"
  shows "\<exists>result. to_dict now e = Inr result \<and> map_of result ''color'' = Some (JInt 0)"
proof -
  obtain result where r: "to_dict now e = Inr result"
    using to_dict_returns [of e] assms by blast
  then have "map_of result ''color'' = Some (JInt 0)"
    using assms by (simp add: lookup_color)
  with r show ?thesis by blast
qed

theorem color_without_hash_is_zero_witness:
  "color (Embed_default\<lparr>color := ''red''\<rparr>) \<noteq> []
   \<and> \<not> startswith (color (Embed_default\<lparr>color := ''red''\<rparr>)) ''#''
   \<and> (\<exists>result. to_dict ''2024-01-01T00:00:00'' (Embed_default\<lparr>color := ''red''\<rparr>) = Inr result
         \<and> map_of result ''color'' = Some (JInt 0))"
  using color_without_hash_is_zero
    [of "Embed_default\<lparr>color := ''red''\<rparr>" "''2024-01-01T00:00:00''"]
  by (simp add: Embed_default_def startswith_def)

text \<open>
  C1. The claim says that \<^verbatim>\<open>to_dict\<close> returns a payload for every embed. It does
  not: for the colour \<^verbatim>\<open>#GGGGGG\<close>, which starts with \<^verbatim>\<open>#\<close> and is not
  hexadecimal, \<^verbatim>\<open>int\<close> raises \<^verbatim>\<open>ValueError\<close> and so does \<^verbatim>\<open>to_dict\<close>.
\<close>

theorem to_dict_raises_on_bad_hex:
  "to_dict ''2024-01-01T00:00:00'' (Embed_default\<lparr>color := ''#GGGGGG''\<rparr>) = Inl ValueError"
  by (simp add: to_dict_Inl startswith_def lstrip_hash_def int16_def int_space_def
        digit_value_def)

theorem to_dict_raises_on_bad_hex_witness:
  "isl (to_dict ''2024-01-01T00:00:00'' (Embed_default\<lparr>color := ''#GGGGGG''\<rparr>))"
  using to_dict_raises_on_bad_hex by simp

subsection \<open>The colour as a number\<close>

lemma hex_digit_all:
  "\<forall>c\<in>set hex_digits.
     digit_value c = Some (hex_digit c) \<and> \<not> int_space c \<and> c \<noteq> CHR ''_'' \<and> c \<noteq> CHR ''+''
     \<and> c \<noteq> CHR ''-'' \<and> c \<noteq> CHR ''x'' \<and> c \<noteq> CHR ''X'' \<and> c \<noteq> CHR ''#''"
  by (simp add: hex_digits_def digit_value_def hex_digit_def int_space_def)

lemma hex_digit_facts:
  assumes "c \<in> set hex_digits"
  shows "digit_value c = Some (hex_digit c)" and "\<not> int_space c"
    and "c \<noteq> CHR ''_''" and "c \<noteq> CHR ''+''" and "c \<noteq> CHR ''-''"
    and "c \<noteq> CHR ''x''" and "c \<noteq> CHR ''X''" and "c \<noteq> CHR ''#''"
  using assms hex_digit_all by blast+

text \<open>On digits alone the loop reads to the end and computes the positional value.\<close>

lemma scan_hex_digits:
  "set hs \<subseteq> set hex_digits \<Longrightarrow> hs \<noteq> [] \<or> prev \<noteq> CHR ''_'' \<Longrightarrow>
   scan_digits prev acc hs = Some (foldl (\<lambda>n c. 16 * n + hex_digit c) acc hs, [])"
proof (induction hs arbitrary: prev acc)
  case Nil
  then show ?case by simp
next
  case (Cons c cs)
  then have c: "c \<in> set hex_digits" and cs: "set cs \<subseteq> set hex_digits" by auto
  have "scan_digits c (16 * acc + hex_digit c) cs
          = Some (foldl (\<lambda>n c. 16 * n + hex_digit c) (16 * acc + hex_digit c) cs, [])"
    using Cons.IH [OF cs, of c] hex_digit_facts(3) [OF c] by blast
  then show ?case
    using hex_digit_facts(1,3) [OF c] by simp
qed

lemma no_hex_prefix:
  assumes "set hs \<subseteq> set hex_digits" and "x = CHR ''x'' \<or> x = CHR ''X''"
  shows "\<not> startswith hs [CHR ''0'', x]"
proof (cases hs)
  case Nil
  then show ?thesis by (simp add: startswith_def)
next
  case (Cons a as)
  show ?thesis
  proof (cases as)
    case Nil
    then show ?thesis by (simp add: Cons startswith_def)
  next
    case (Cons b bs)
    then have "b \<in> set hex_digits" using assms(1) \<open>hs = a # as\<close> by simp
    then have "b \<noteq> x" using assms(2) hex_digit_facts(6,7) by blast
    then show ?thesis by (simp add: \<open>hs = a # as\<close> Cons startswith_def)
  qed
qed

lemma int16_hex_digits:
  assumes "hs \<noteq> []" and "set hs \<subseteq> set hex_digits"
  shows "int16 hs = Inr (int (base16 hs))"
proof -
  obtain a as where hs: "hs = a # as" using assms(1) by (cases hs) auto
  then have a: "a \<in> set hex_digits" using assms(2) by simp
  have nox: "\<not> startswith hs ''0x''" "\<not> startswith hs ''0X''"
    using no_hex_prefix [OF assms(2)] by simp_all
  have s1: "dropWhile int_space hs = hs"
    using hex_digit_facts(2) [OF a] by (simp add: hs)
  have nosign: "\<not> startswith hs ''+''" "\<not> startswith hs ''-''" "\<not> startswith hs ''_''"
    using hex_digit_facts(3,4,5) [OF a] by (auto simp: hs startswith_def)
  have scan: "scan_digits (CHR 0x00) 0 hs = Some (base16 hs, [])"
    using scan_hex_digits [OF assms(2), of "CHR 0x00" 0] assms(1) by (simp add: base16_def)
  show ?thesis
    using assms(1) by (auto simp: int16_def Let_def s1 nosign nox scan)
qed

lemma lstrip_hash_hex:
  "hs \<noteq> [] \<Longrightarrow> set hs \<subseteq> set hex_digits \<Longrightarrow> lstrip_hash (CHR ''#'' # hs) = hs"
  using hex_digit_facts(8) by (cases hs) (auto simp: lstrip_hash_def)

text \<open>
  C9. For an embed whose colour is \<^verbatim>\<open>#\<close> followed by hexadecimal digits,
  \<^verbatim>\<open>to_dict\<close> returns a payload whose \<^verbatim>\<open>color\<close> is the base-16 value of the
  digits (\<^verbatim>\<open>#5865F2\<close> gives 5793266, see the witness), and for an empty colour it
  returns a payload without the key \<^verbatim>\<open>color\<close>.
\<close>

theorem hex_color_is_parsed:
  "(hs \<noteq> [] \<and> set hs \<subseteq> set hex_digits \<and> color e = CHR ''#'' # hs \<longrightarrow>
      (\<exists>result. to_dict now e = Inr result
         \<and> map_of result ''color'' = Some (JInt (int (base16 hs)))))
   \<and> (color e = [] \<longrightarrow>
      (\<exists>result. to_dict now e = Inr result \<and> map_of result ''color'' = None))"
proof (intro conjI impI)
  assume h: "hs \<noteq> [] \<and> set hs \<subseteq> set hex_digits \<and> color e = CHR ''#'' # hs"
  then have p: "int16 (lstrip_hash (color e)) = Inr (int (base16 hs))"
    by (simp add: lstrip_hash_hex int16_hex_digits)
  then obtain result where r: "to_dict now e = Inr result"
    using to_dict_returns [of e] by blast
  have "map_of result ''color'' = Some (JInt (int (base16 hs)))"
    using lookup_color [OF r] h p by (simp add: startswith_def)
  with r show "\<exists>result. to_dict now e = Inr result
         \<and> map_of result ''color'' = Some (JInt (int (base16 hs)))" by blast
next
  assume h: "color e = []"
  then obtain result where r: "to_dict now e = Inr result"
    using to_dict_returns [of e] by blast
  have "map_of result ''color'' = None"
    using lookup_color [OF r] h by simp
  with r show "\<exists>result. to_dict now e = Inr result \<and> map_of result ''color'' = None" by blast
qed

theorem hex_color_is_parsed_witness:
  "''5865F2'' \<noteq> [] \<and> set ''5865F2'' \<subseteq> set hex_digits
   \<and> color (Embed_default\<lparr>color := ''#5865F2''\<rparr>) = CHR ''#'' # ''5865F2''
   \<and> (\<exists>result. to_dict ''2024-01-01T00:00:00'' (Embed_default\<lparr>color := ''#5865F2''\<rparr>) = Inr result
         \<and> map_of result ''color'' = Some (JInt 5793266))
   \<and> color (Embed_default\<lparr>color := ''''\<rparr>) = []
   \<and> (\<exists>result. to_dict ''2024-01-01T00:00:00'' (Embed_default\<lparr>color := ''''\<rparr>) = Inr result
         \<and> map_of result ''color'' = None)"
  using hex_color_is_parsed
          [of "''5865F2''" "Embed_default\<lparr>color := ''#5865F2''\<rparr>" "''2024-01-01T00:00:00''"]
        hex_color_is_parsed
          [of "''''" "Embed_default\<lparr>color := ''''\<rparr>" "''2024-01-01T00:00:00''"]
  by (simp add: hex_digits_def base16_def hex_digit_def)

subsection \<open>Keys that are left out\<close>

lemma lookup_other:
  assumes "to_dict now e = Inr result"
  shows "map_of result ''title'' = (if title e \<noteq> [] then Some (JStr (title e)) else None)"
    and "map_of result ''description'' =
           (if description e \<noteq> [] then Some (JStr (description e)) else None)"
    and "map_of result ''url'' =
           (if Embed.url e \<noteq> [] \<and> http (Embed.url e) then Some (JStr (Embed.url e)) else None)"
    and "map_of result ''thumbnail'' =
           (if thumbnail e \<noteq> [] \<and> http (thumbnail e)
            then Some (JObj [(''url'', JStr (thumbnail e))]) else None)"
    and "map_of result ''image'' =
           (if image e \<noteq> [] \<and> http (image e)
            then Some (JObj [(''url'', JStr (image e))]) else None)"
    and "map_of result ''timestamp'' = (if timestamp e then Some (JStr now) else None)"
    and "map_of result ''fields'' =
           (if fields' e \<noteq> [] then Some (JList (map field_dict (fields' e))) else None)"
  using assms
  by (auto simp: to_dict_def Let_def map_of_put put_color_other split: sum.splits)

lemma lookup_footer:
  assumes "to_dict now e = Inr result"
  shows "map_of result ''footer'' =
           (if footer e \<noteq> [] \<or> footer_icon e \<noteq> []
            then Some (JObj (put (footer_icon e \<noteq> [] \<and> http (footer_icon e)) ''icon_url''
                               (JStr (footer_icon e))
                            (put (footer e \<noteq> []) ''text'' (JStr (footer e)) [])))
            else None)"
  using assms
  by (auto simp: to_dict_def Let_def map_of_put put_color_other split: sum.splits)

lemma lookup_author:
  assumes "to_dict now e = Inr result"
  shows "map_of result ''author'' =
           (if author e \<noteq> [] \<or> author_icon e \<noteq> [] \<or> author_url e \<noteq> []
            then Some (JObj (put (author_url e \<noteq> [] \<and> http (author_url e)) ''url''
                               (JStr (author_url e))
                            (put (author_icon e \<noteq> [] \<and> http (author_icon e)) ''icon_url''
                               (JStr (author_icon e))
                            (put (author e \<noteq> []) ''name'' (JStr (author e)) []))))
            else None)"
  using assms
  by (auto simp: to_dict_def Let_def map_of_put put_color_other split: sum.splits)

text \<open>
  C2. In a payload that \<^verbatim>\<open>to_dict\<close> returns, an empty title, description or
  colour, a false timestamp flag and an empty field list have no key; \<^verbatim>\<open>url\<close>,
  \<^verbatim>\<open>thumbnail\<close> and \<^verbatim>\<open>image\<close> have no key unless the value starts with
  \<^verbatim>\<open>http://\<close> or \<^verbatim>\<open>https://\<close>; there is no \<^verbatim>\<open>footer\<close> key when footer
  text and footer icon are both empty, and a footer object that is there has no
  \<^verbatim>\<open>text\<close> for an empty text and no \<^verbatim>\<open>icon_url\<close> unless the icon is an http(s)
  URL; the same for \<^verbatim>\<open>author\<close> with its name, icon and URL. "Blank" is read as
  empty, which is what the code tests.
\<close>

theorem to_dict_omits_unset_and_non_http:
  assumes "to_dict now e = Inr result"
  shows "(title e = [] \<longrightarrow> map_of result ''title'' = None)
       \<and> (description e = [] \<longrightarrow> map_of result ''description'' = None)
       \<and> (color e = [] \<longrightarrow> map_of result ''color'' = None)
       \<and> (\<not> timestamp e \<longrightarrow> map_of result ''timestamp'' = None)
       \<and> (fields' e = [] \<longrightarrow> map_of result ''fields'' = None)
       \<and> (\<not> http (Embed.url e) \<longrightarrow> map_of result ''url'' = None)
       \<and> (\<not> http (thumbnail e) \<longrightarrow> map_of result ''thumbnail'' = None)
       \<and> (\<not> http (image e) \<longrightarrow> map_of result ''image'' = None)
       \<and> (footer e = [] \<and> footer_icon e = [] \<longrightarrow> map_of result ''footer'' = None)
       \<and> (\<forall>v. map_of result ''footer'' = Some v \<longrightarrow>
              (footer e \<noteq> [] \<or> footer_icon e \<noteq> [])
              \<and> (\<exists>d. v = JObj d
                    \<and> (footer e = [] \<longrightarrow> map_of d ''text'' = None)
                    \<and> (\<not> http (footer_icon e) \<longrightarrow> map_of d ''icon_url'' = None)))
       \<and> (author e = [] \<and> author_icon e = [] \<and> author_url e = [] \<longrightarrow>
              map_of result ''author'' = None)
       \<and> (\<forall>v. map_of result ''author'' = Some v \<longrightarrow>
              (author e \<noteq> [] \<or> author_icon e \<noteq> [] \<or> author_url e \<noteq> [])
              \<and> (\<exists>d. v = JObj d
                    \<and> (author e = [] \<longrightarrow> map_of d ''name'' = None)
                    \<and> (\<not> http (author_icon e) \<longrightarrow> map_of d ''icon_url'' = None)
                    \<and> (\<not> http (author_url e) \<longrightarrow> map_of d ''url'' = None)))"
proof -
  have scalars:
    "title e = [] \<longrightarrow> map_of result ''title'' = None"
    "description e = [] \<longrightarrow> map_of result ''description'' = None"
    "color e = [] \<longrightarrow> map_of result ''color'' = None"
    "\<not> timestamp e \<longrightarrow> map_of result ''timestamp'' = None"
    "fields' e = [] \<longrightarrow> map_of result ''fields'' = None"
    by (simp_all add: lookup_other [OF assms] lookup_color [OF assms])
  have urls:
    "\<not> http (Embed.url e) \<longrightarrow> map_of result ''url'' = None"
    "\<not> http (thumbnail e) \<longrightarrow> map_of result ''thumbnail'' = None"
    "\<not> http (image e) \<longrightarrow> map_of result ''image'' = None"
    by (simp_all add: lookup_other [OF assms])
  have footer:
    "footer e = [] \<and> footer_icon e = [] \<longrightarrow> map_of result ''footer'' = None"
    "\<forall>v. map_of result ''footer'' = Some v \<longrightarrow>
              (footer e \<noteq> [] \<or> footer_icon e \<noteq> [])
              \<and> (\<exists>d. v = JObj d
                    \<and> (footer e = [] \<longrightarrow> map_of d ''text'' = None)
                    \<and> (\<not> http (footer_icon e) \<longrightarrow> map_of d ''icon_url'' = None))"
    by (auto simp: lookup_footer [OF assms] map_of_put split: if_splits)
  have author:
    "author e = [] \<and> author_icon e = [] \<and> author_url e = [] \<longrightarrow>
              map_of result ''author'' = None"
    "\<forall>v. map_of result ''author'' = Some v \<longrightarrow>
              (author e \<noteq> [] \<or> author_icon e \<noteq> [] \<or> author_url e \<noteq> [])
              \<and> (\<exists>d. v = JObj d
                    \<and> (author e = [] \<longrightarrow> map_of d ''name'' = None)
                    \<and> (\<not> http (author_icon e) \<longrightarrow> map_of d ''icon_url'' = None)
                    \<and> (\<not> http (author_url e) \<longrightarrow> map_of d ''url'' = None))"
    by (auto simp: lookup_author [OF assms] map_of_put split: if_splits)
  from scalars urls footer author show ?thesis by blast
qed

theorem to_dict_omits_unset_and_non_http_witness:
  "to_dict ''2024-01-01T00:00:00'' (Embed_default\<lparr>thumbnail := ''ftp://x'', footer_icon := ''ftp://y''\<rparr>)
     = Inr [(''color'', JInt 5793266), (''footer'', JObj [])]
   \<and> map_of [(''color'', JInt 5793266), (''footer'', JObj [])] ''thumbnail'' = None
   \<and> map_of [(''color'', JInt 5793266), (''footer'', JObj [])] ''title'' = None
   \<and> map_of [(''color'', JInt 5793266), (''footer'', JObj [])] ''author'' = None"
proof -
  have h: "to_dict ''2024-01-01T00:00:00''
             (Embed_default\<lparr>thumbnail := ''ftp://x'', footer_icon := ''ftp://y''\<rparr>)
           = Inr [(''color'', JInt 5793266), (''footer'', JObj [])]"
    by (simp add: to_dict_def Embed_default_def put_def put_color_def http_def startswith_def
          lstrip_hash_def int16_def int_space_def digit_value_def)
  show ?thesis
    using to_dict_omits_unset_and_non_http [OF h] h by simp
qed

section \<open>Validation of an embed\<close>

lemma validate_fields_eq:
  "validate_fields i fs errors =
     errors @ concat (map (\<lambda>(j, f). map (\<lambda>err. ''Field '' @ str_nat (j + 1) @ '': '' @ err)
                                      (EmbedField_validate f))
                          (enumerate i fs))"
  by (induction fs arbitrary: i errors) simp_all

lemma not_too_many:
  "\<not> startswith (too_long ''Title'' n m) ''Too many fields''"
  "\<not> startswith (too_long ''Description'' n m) ''Too many fields''"
  "\<not> startswith (too_long ''Footer'' n m) ''Too many fields''"
  "\<not> startswith (too_long ''Author'' n m) ''Too many fields''"
  "\<not> startswith (CHR ''F'' # s) ''Too many fields''"
  "startswith (''Too many fields ('' @ s) ''Too many fields''"
  by (simp_all add: startswith_def too_long_def)

lemma filter_field_errors:
  "filter (\<lambda>m. startswith m ''Too many fields'')
     (concat (map (\<lambda>(j, f). map (\<lambda>err. ''Field '' @ str_nat (j + 1) @ '': '' @ err)
                              (EmbedField_validate f)) xs)) = []"
  by (induction xs) (auto simp: not_too_many(5) filter_empty_conv)

lemma Embed_validate_eq:
  "Embed_validate e =
     (if title e \<noteq> [] \<and> MAX_TITLE < length (title e)
      then [too_long ''Title'' (length (title e)) MAX_TITLE] else [])
   @ (if description e \<noteq> [] \<and> MAX_DESC < length (description e)
      then [too_long ''Description'' (length (description e)) MAX_DESC] else [])
   @ (if footer e \<noteq> [] \<and> MAX_FOOTER < length (footer e)
      then [too_long ''Footer'' (length (footer e)) MAX_FOOTER] else [])
   @ (if author e \<noteq> [] \<and> MAX_AUTHOR < length (author e)
      then [too_long ''Author'' (length (author e)) MAX_AUTHOR] else [])
   @ (if MAX_FIELDS < length (fields' e)
      then [''Too many fields ('' @ str_nat (length (fields' e)) @ ''/'' @ str_nat MAX_FIELDS @ '')'']
      else [])
   @ concat (map (\<lambda>(i, f). map (\<lambda>err. ''Field '' @ str_nat (i + 1) @ '': '' @ err)
                              (EmbedField_validate f))
                  (enumerate 0 (fields' e)))"
  by (simp add: Embed_validate_def Let_def append_if_def validate_fields_eq)

text \<open>
  C4. \<^verbatim>\<open>Embed.validate\<close> returns every violation: the list is the violations of
  title, description, footer, author and field count, each present exactly when its check
  fails, followed by the violations of every field in order, each prefixed with
  \<^verbatim>\<open>Field i: \<close> for the 1-based position \<open>i\<close> of the field. With more than 25 fields
  exactly one entry of the list is a "Too many fields" violation, with 25 or fewer none
  is.
\<close>

theorem validate_reports_every_violation:
  "Embed_validate e =
     (if title e \<noteq> [] \<and> MAX_TITLE < length (title e)
      then [too_long ''Title'' (length (title e)) MAX_TITLE] else [])
   @ (if description e \<noteq> [] \<and> MAX_DESC < length (description e)
      then [too_long ''Description'' (length (description e)) MAX_DESC] else [])
   @ (if footer e \<noteq> [] \<and> MAX_FOOTER < length (footer e)
      then [too_long ''Footer'' (length (footer e)) MAX_FOOTER] else [])
   @ (if author e \<noteq> [] \<and> MAX_AUTHOR < length (author e)
      then [too_long ''Author'' (length (author e)) MAX_AUTHOR] else [])
   @ (if 25 < length (fields' e)
      then [''Too many fields ('' @ str_nat (length (fields' e)) @ ''/25)''] else [])
   @ concat (map (\<lambda>(i, f). map (\<lambda>err. ''Field '' @ str_nat (i + 1) @ '': '' @ err)
                              (EmbedField_validate f))
                  (enumerate 0 (fields' e)))
   \<and> (25 < length (fields' e) \<longrightarrow>
        filter (\<lambda>m. startswith m ''Too many fields'') (Embed_validate e)
          = [''Too many fields ('' @ str_nat (length (fields' e)) @ ''/25)''])
   \<and> (length (fields' e) \<le> 25 \<longrightarrow>
        filter (\<lambda>m. startswith m ''Too many fields'') (Embed_validate e) = [])"
proof -
  have n25: "str_nat 25 = ''25''"
    by (simp add: str_nat.simps [of 25] str_nat.simps [of 2])
  have eq: "Embed_validate e = 
     (if title e \<noteq> [] \<and> MAX_TITLE < length (title e)
      then [too_long ''Title'' (length (title e)) MAX_TITLE] else [])
   @ (if description e \<noteq> [] \<and> MAX_DESC < length (description e)
      then [too_long ''Description'' (length (description e)) MAX_DESC] else [])
   @ (if footer e \<noteq> [] \<and> MAX_FOOTER < length (footer e)
      then [too_long ''Footer'' (length (footer e)) MAX_FOOTER] else [])
   @ (if author e \<noteq> [] \<and> MAX_AUTHOR < length (author e)
      then [too_long ''Author'' (length (author e)) MAX_AUTHOR] else [])
   @ (if 25 < length (fields' e)
      then [''Too many fields ('' @ str_nat (length (fields' e)) @ ''/25)''] else [])
   @ concat (map (\<lambda>(i, f). map (\<lambda>err. ''Field '' @ str_nat (i + 1) @ '': '' @ err)
                              (EmbedField_validate f))
                  (enumerate 0 (fields' e)))"
    by (simp add: Embed_validate_eq n25 MAX_FIELDS_def)
  define P where "P = (\<lambda>m. startswith m ''Too many fields'')"
  define T where "T = ''Too many fields ('' @ str_nat (length (fields' e)) @ ''/25)''"
  define F where
    "F = concat (map (\<lambda>(i, f). map (\<lambda>err. ''Field '' @ str_nat (i + 1) @ '': '' @ err)
                                   (EmbedField_validate f))
                     (enumerate 0 (fields' e)))"
  have PF: "filter P F = []"
    unfolding P_def F_def by (rule filter_field_errors)
  have PT: "P T"
    unfolding P_def T_def by (simp add: startswith_def)
  have nP: "\<not> P (too_long ''Title'' n m)" "\<not> P (too_long ''Description'' n m)"
    "\<not> P (too_long ''Footer'' n m)" "\<not> P (too_long ''Author'' n m)" for n m
    unfolding P_def by (rule not_too_many)+
  note eq' = eq [folded T_def F_def]
  have many: "25 < length (fields' e) \<longrightarrow> filter P (Embed_validate e) = [T]"
    by (simp add: eq' PF PT nP)
  have few: "length (fields' e) \<le> 25 \<longrightarrow> filter P (Embed_validate e) = []"
    by (simp add: eq' PF PT nP)
  from eq many few show ?thesis
    unfolding P_def T_def by blast
qed

lemma str_nat_26: "str_nat 26 = ''26''"
  by (simp add: str_nat.simps [of 26] str_nat.simps [of 2])

lemma str_nat_digit: "n < 10 \<Longrightarrow> str_nat n = [''0123456789'' ! n]"
  by (simp add: str_nat.simps [of n])

theorem validate_reports_every_violation_witness:
  "25 < length (fields' (Embed_default\<lparr>fields' := replicate 26 \<lparr>name = '' '', value = ''v'', inline = False\<rparr>\<rparr>))
   \<and> filter (\<lambda>m. startswith m ''Too many fields'')
        (Embed_validate (Embed_default\<lparr>fields' := replicate 26 \<lparr>name = '' '', value = ''v'', inline = False\<rparr>\<rparr>))
       = [''Too many fields (26/25)'']
   \<and> Embed_validate
        (Embed_default\<lparr>fields' := [\<lparr>name = ''a'', value = ''v'', inline = False\<rparr>,
                                   \<lparr>name = ''b'', value = ''v'', inline = True\<rparr>,
                                   \<lparr>name = '' '', value = '''', inline = False\<rparr>]\<rparr>)
       = [''Field 3: Field name cannot be empty'', ''Field 3: Field value cannot be empty'']"
proof -
  let ?many = "Embed_default\<lparr>fields' := replicate 26 \<lparr>name = '' '', value = ''v'', inline = False\<rparr>\<rparr>"
  let ?three = "Embed_default\<lparr>fields' := [\<lparr>name = ''a'', value = ''v'', inline = False\<rparr>,
                                   \<lparr>name = ''b'', value = ''v'', inline = True\<rparr>,
                                   \<lparr>name = '' '', value = '''', inline = False\<rparr>]\<rparr>"
  have a: "25 < length (fields' ?many)" by simp
  with validate_reports_every_violation [of ?many]
  have "filter (\<lambda>m. startswith m ''Too many fields'') (Embed_validate ?many)
          = [''Too many fields ('' @ str_nat (length (fields' ?many)) @ ''/25)'']"
    by blast
  then have b: "filter (\<lambda>m. startswith m ''Too many fields'') (Embed_validate ?many)
          = [''Too many fields (26/25)'']"
    by (simp add: str_nat_26)
  have "Embed_validate ?three =
     (if title ?three \<noteq> [] \<and> MAX_TITLE < length (title ?three)
      then [too_long ''Title'' (length (title ?three)) MAX_TITLE] else [])
   @ (if description ?three \<noteq> [] \<and> MAX_DESC < length (description ?three)
      then [too_long ''Description'' (length (description ?three)) MAX_DESC] else [])
   @ (if footer ?three \<noteq> [] \<and> MAX_FOOTER < length (footer ?three)
      then [too_long ''Footer'' (length (footer ?three)) MAX_FOOTER] else [])
   @ (if author ?three \<noteq> [] \<and> MAX_AUTHOR < length (author ?three)
      then [too_long ''Author'' (length (author ?three)) MAX_AUTHOR] else [])
   @ (if 25 < length (fields' ?three)
      then [''Too many fields ('' @ str_nat (length (fields' ?three)) @ ''/25)''] else [])
   @ concat (map (\<lambda>(i, f). map (\<lambda>err. ''Field '' @ str_nat (i + 1) @ '': '' @ err)
                              (EmbedField_validate f))
                  (enumerate 0 (fields' ?three)))"
    using validate_reports_every_violation [of ?three] by blast
  then have c: "Embed_validate ?three
       = [''Field 3: Field name cannot be empty'', ''Field 3: Field value cannot be empty'']"
    by (simp add: Embed_default_def EmbedField_validate_def append_if_def strip_def
          isspace_def MAX_FIELD_NAME_def MAX_FIELD_VALUE_def str_nat_digit)
  from a b c show ?thesis by blast
qed

section \<open>Buttons\<close>

lemma strip_Nil: "strip [] = []"
  by (simp add: strip_def)

lemma put_style_lookup:
  "k \<noteq> ''style'' \<Longrightarrow> k \<noteq> ''url'' \<Longrightarrow> k \<noteq> ''custom_id'' \<Longrightarrow>
   map_of (put_style b r) k = map_of r k"
  by (simp add: put_style_def map_of_setitem)

lemma button_lookup:
  "map_of (MessageButton_to_dict b) ''style'' =
     Some (JInt (if style b = ''link'' \<and> MessageButton.url b \<noteq> [] then 5
                 else case map_of style_map (style b) of Some n \<Rightarrow> n | None \<Rightarrow> 1))"
  "map_of (MessageButton_to_dict b) ''url'' =
     (if style b = ''link'' \<and> MessageButton.url b \<noteq> [] then Some (JStr (MessageButton.url b))
      else None)"
  "map_of (MessageButton_to_dict b) ''custom_id'' =
     (if style b = ''link'' \<and> MessageButton.url b \<noteq> [] then None
      else Some (JStr (''btn_'' @ replace_space (lower (label b)))))"
  "map_of (MessageButton_to_dict b) ''emoji'' =
     (if strip (emoji b) \<noteq> [] then Some (JObj [(''name'', JStr (emoji b))]) else None)"
  by (auto simp: MessageButton_to_dict_def Let_def map_of_put put_style_def map_of_setitem
        strip_Nil)

text \<open>
  C5, as amended. A button of style \<^verbatim>\<open>link\<close> with an empty URL gets the violation
  "Link buttons require a URL". \<^verbatim>\<open>to_dict\<close> emits style code 5 with \<^verbatim>\<open>url\<close>
  and without \<^verbatim>\<open>custom_id\<close> for a link button whose URL is not empty; for a link
  button whose URL is empty it takes the other branch and emits code 1 with
  \<^verbatim>\<open>custom_id\<close> and without \<^verbatim>\<open>url\<close>. For every other style it emits the mapped
  code (primary 1, secondary 2, success 3, danger 4, anything else 1), the identifier
  \<^verbatim>\<open>btn_\<close> followed by the lower-cased label with spaces turned into underscores, and
  no \<^verbatim>\<open>url\<close>. The emoji is there exactly when it is not blank after trimming.
\<close>

theorem button_payload:
  "(style b = ''link'' \<and> MessageButton.url b = [] \<longrightarrow>
      ''Link buttons require a URL'' \<in> set (MessageButton_validate b))
   \<and> (style b = ''link'' \<and> MessageButton.url b \<noteq> [] \<longrightarrow>
        map_of (MessageButton_to_dict b) ''style'' = Some (JInt 5)
        \<and> map_of (MessageButton_to_dict b) ''url'' = Some (JStr (MessageButton.url b))
        \<and> map_of (MessageButton_to_dict b) ''custom_id'' = None)
   \<and> (style b = ''link'' \<and> MessageButton.url b = [] \<longrightarrow>
        map_of (MessageButton_to_dict b) ''style'' = Some (JInt 1)
        \<and> map_of (MessageButton_to_dict b) ''url'' = None
        \<and> map_of (MessageButton_to_dict b) ''custom_id''
            = Some (JStr (''btn_'' @ replace_space (lower (label b)))))
   \<and> (style b \<noteq> ''link'' \<longrightarrow>
        map_of (MessageButton_to_dict b) ''style''
          = Some (JInt (if style b = ''primary'' then 1 else if style b = ''secondary'' then 2
                        else if style b = ''success'' then 3 else if style b = ''danger'' then 4
                        else 1))
        \<and> map_of (MessageButton_to_dict b) ''custom_id''
            = Some (JStr (''btn_'' @ replace_space (lower (label b))))
        \<and> map_of (MessageButton_to_dict b) ''url'' = None)
   \<and> map_of (MessageButton_to_dict b) ''emoji''
       = (if strip (emoji b) \<noteq> [] then Some (JObj [(''name'', JStr (emoji b))]) else None)"
proof -
  have v: "style b = ''link'' \<and> MessageButton.url b = [] \<longrightarrow>
      ''Link buttons require a URL'' \<in> set (MessageButton_validate b)"
    by (simp add: MessageButton_validate_def Let_def append_if_def)
  have link: "style b = ''link'' \<and> MessageButton.url b \<noteq> [] \<longrightarrow>
        map_of (MessageButton_to_dict b) ''style'' = Some (JInt 5)
        \<and> map_of (MessageButton_to_dict b) ''url'' = Some (JStr (MessageButton.url b))
        \<and> map_of (MessageButton_to_dict b) ''custom_id'' = None"
    by (simp add: button_lookup)
  have nourl: "style b = ''link'' \<and> MessageButton.url b = [] \<longrightarrow>
        map_of (MessageButton_to_dict b) ''style'' = Some (JInt 1)
        \<and> map_of (MessageButton_to_dict b) ''url'' = None
        \<and> map_of (MessageButton_to_dict b) ''custom_id''
            = Some (JStr (''btn_'' @ replace_space (lower (label b))))"
    by (simp add: button_lookup style_map_def)
  have other: "style b \<noteq> ''link'' \<longrightarrow>
        map_of (MessageButton_to_dict b) ''style''
          = Some (JInt (if style b = ''primary'' then 1 else if style b = ''secondary'' then 2
                        else if style b = ''success'' then 3 else if style b = ''danger'' then 4
                        else 1))
        \<and> map_of (MessageButton_to_dict b) ''custom_id''
            = Some (JStr (''btn_'' @ replace_space (lower (label b))))
        \<and> map_of (MessageButton_to_dict b) ''url'' = None"
    by (simp add: button_lookup style_map_def)
  from v link nourl other button_lookup(4) [of b] show ?thesis by blast
qed

lemma lower_Go: "replace_space (lower ''Go'') = ''go''"
  by code_simp

lemma lower_Big_Red: "replace_space (lower ''Big Red'') = ''big_red''"
  by code_simp

text \<open>
  The claim as stated fails for a link button without a URL: the payload has style code 1
  and an identifier.
\<close>

theorem link_button_without_url:
  "style \<lparr>label = ''Go'', url = '''', style = ''link'', emoji = '''', disabled = False\<rparr> = ''link''
   \<and> MessageButton_to_dict \<lparr>label = ''Go'', url = '''', style = ''link'', emoji = '''', disabled = False\<rparr>
       = [(''type'', JInt 2), (''label'', JStr ''Go''), (''style'', JInt 1),
          (''custom_id'', JStr ''btn_go'')]"
  by (simp add: MessageButton_to_dict_def put_def put_style_def style_map_def lower_Go)

theorem button_payload_witness:
  "MessageButton_validate \<lparr>label = ''Go'', url = '''', style = ''link'', emoji = '''', disabled = False\<rparr>
     = [''Link buttons require a URL'']
   \<and> map_of (MessageButton_to_dict
         \<lparr>label = ''Go'', url = ''https://x'', style = ''link'', emoji = '' '', disabled = False\<rparr>)
        ''style'' = Some (JInt 5)
   \<and> map_of (MessageButton_to_dict
         \<lparr>label = ''Go'', url = ''https://x'', style = ''link'', emoji = '' '', disabled = False\<rparr>)
        ''url'' = Some (JStr ''https://x'')
   \<and> map_of (MessageButton_to_dict
         \<lparr>label = ''Go'', url = ''https://x'', style = ''link'', emoji = '' '', disabled = False\<rparr>)
        ''custom_id'' = None
   \<and> map_of (MessageButton_to_dict
         \<lparr>label = ''Go'', url = ''https://x'', style = ''link'', emoji = '' '', disabled = False\<rparr>)
        ''emoji'' = None
   \<and> map_of (MessageButton_to_dict
         \<lparr>label = ''Go'', url = '''', style = ''link'', emoji = '''', disabled = False\<rparr>)
        ''style'' = Some (JInt 1)
   \<and> map_of (MessageButton_to_dict
         \<lparr>label = ''Big Red'', url = ''https://x'', style = ''danger'', emoji = ''!'', disabled = False\<rparr>)
        ''style'' = Some (JInt 4)
   \<and> map_of (MessageButton_to_dict
         \<lparr>label = ''Big Red'', url = ''https://x'', style = ''danger'', emoji = ''!'', disabled = False\<rparr>)
        ''custom_id'' = Some (JStr ''btn_big_red'')
   \<and> map_of (MessageButton_to_dict
         \<lparr>label = ''Big Red'', url = ''https://x'', style = ''danger'', emoji = ''!'', disabled = False\<rparr>)
        ''url'' = None"
  using button_payload
          [of "\<lparr>label = ''Go'', url = ''https://x'', style = ''link'', emoji = '' '', disabled = False\<rparr>"]
        button_payload
          [of "\<lparr>label = ''Go'', url = '''', style = ''link'', emoji = '''', disabled = False\<rparr>"]
        button_payload
          [of "\<lparr>label = ''Big Red'', url = ''https://x'', style = ''danger'', emoji = ''!'', disabled = False\<rparr>"]
  by (simp add: strip_def isspace_def lower_Go lower_Big_Red
        MessageButton_validate_def append_if_def)

section \<open>Round trip through the history file\<close>

lemma EmbedField_roundtrip: "EmbedField_init (EmbedField_asdict f) = Inr (Some f)"
  by (simp add: EmbedField_init_def EmbedField_asdict_def kwarg_def)

lemma build_all_map:
  "(\<And>x. f (g x) = Inr (Some x)) \<Longrightarrow> build_all f (map g xs) = Inr (Some xs)"
  by (induction xs) simp_all

lemma decode_asdict: "decode_item (asdict e) = Inr (Some e)"
proof -
  have fs: "build_all EmbedField_init (map EmbedField_asdict (fields' e)) = Inr (Some (fields' e))"
    by (rule build_all_map) (rule EmbedField_roundtrip)
  show ?thesis
    by (simp add: decode_item_def asdict_def kwarg_def iterate_def fs Embed_init_def
          Embed_params_def)
qed

lemma load_saved:
  "load_history (save_history Written h f) h0 = Some (drop (length h - 50) h)"
proof -
  have "build_all decode_item (map asdict (drop (length h - 50) h))
          = Inr (Some (drop (length h - 50) h))"
    by (rule build_all_map) (rule decode_asdict)
  then show ?thesis
    by (simp add: load_history_def save_history_def iterate_def)
qed

text \<open>
  C3. Decoding the stored document of an embed gives the embed back, whatever its
  attributes and however many fields it has, the field list included as it was; and
  loading a history file that \<^verbatim>\<open>save_history\<close> has written gives the snapshots that
  were saved (the last 50 of the list, all of it when it has at most 50), in their order.
\<close>

theorem history_roundtrip:
  "decode_item (asdict e) = Inr (Some e)
   \<and> load_history (save_history Written h f) h0 = Some (drop (length h - 50) h)
   \<and> (length h \<le> 50 \<longrightarrow> load_history (save_history Written h f) h0 = Some h)"
  by (simp add: decode_asdict load_saved)

theorem history_roundtrip_witness:
  "decode_item
     (asdict (Embed_default\<lparr>title := ''Hi'',
                fields' := [\<lparr>name = ''B'', value = ''2'', inline = True\<rparr>,
                            \<lparr>name = ''A'', value = ''1'', inline = False\<rparr>]\<rparr>))
     = Inr (Some (Embed_default\<lparr>title := ''Hi'',
                fields' := [\<lparr>name = ''B'', value = ''2'', inline = True\<rparr>,
                            \<lparr>name = ''A'', value = ''1'', inline = False\<rparr>]\<rparr>))
   \<and> length [Embed_default, Embed_default\<lparr>title := ''Hi''\<rparr>] \<le> 50
   \<and> load_history (save_history Written [Embed_default, Embed_default\<lparr>title := ''Hi''\<rparr>] Missing) []
       = Some [Embed_default, Embed_default\<lparr>title := ''Hi''\<rparr>]"
  using history_roundtrip
          [of "Embed_default\<lparr>title := ''Hi'',
                fields' := [\<lparr>name = ''B'', value = ''2'', inline = True\<rparr>,
                            \<lparr>name = ''A'', value = ''1'', inline = False\<rparr>]\<rparr>"
              "[Embed_default, Embed_default\<lparr>title := ''Hi''\<rparr>]" Missing "[]"]
  by simp

subsection \<open>What decoding accepts\<close>

lemma build_all_Some:
  "build_all f xs = Inr (Some ys) \<Longrightarrow> map f xs = map (\<lambda>y. Inr (Some y)) ys"
proof (induction xs arbitrary: ys)
  case Nil
  then show ?case by simp
next
  case (Cons x xs)
  then show ?case
    by (auto split: sum.splits option.splits simp: bind_eq_Some_conv)
qed

lemma build_all_raises:
  "list_ex (\<lambda>x. isl (f x)) xs \<Longrightarrow> isl (build_all f xs)"
  by (induction xs) (auto split: sum.splits)

lemma unknown_key_raises:
  "\<not> list_all (\<lambda>k. k \<in> set Embed_params) (map fst kw) \<Longrightarrow> isl (decode_item (JObj kw))"
  by (simp add: decode_item_def Embed_init_def split: sum.splits)

lemma decoded_fields:
  assumes "decode_item (JObj kw) = Inr (Some e)" and "kwarg kw ''fields'' (JList []) = JList fl"
  shows "map EmbedField_init fl = map (\<lambda>f. Inr (Some f)) (fields' e)"
proof -
  from assms obtain fs where fs: "build_all EmbedField_init fl = Inr fs"
    and e: "Embed_init kw fs = Inr (Some e)"
    by (auto simp: decode_item_def iterate_def split: sum.splits)
  from e have "fs = Some (fields' e)"
    by (auto simp: Embed_init_def bind_eq_Some_conv split: if_splits)
  with fs show ?thesis by (simp add: build_all_Some)
qed

lemma as_str_Some: "as_str v = Some s \<longleftrightarrow> v = JStr s"
  by (cases v) auto

lemma as_bool_Some: "as_bool v = Some b \<longleftrightarrow> v = JBool b"
  by (cases v) auto

lemma decoded_scalars:
  assumes "decode_item (JObj kw) = Inr (Some e)"
  shows "JStr (title e) = kwarg kw ''title'' (JStr '''')"
    and "JStr (description e) = kwarg kw ''description'' (JStr '''')"
    and "JStr (color e) = kwarg kw ''color'' (JStr ''#5865F2'')"
    and "JStr (Embed.url e) = kwarg kw ''url'' (JStr '''')"
    and "JStr (footer e) = kwarg kw ''footer'' (JStr '''')"
    and "JStr (footer_icon e) = kwarg kw ''footer_icon'' (JStr '''')"
    and "JStr (author e) = kwarg kw ''author'' (JStr '''')"
    and "JStr (author_icon e) = kwarg kw ''author_icon'' (JStr '''')"
    and "JStr (author_url e) = kwarg kw ''author_url'' (JStr '''')"
    and "JStr (thumbnail e) = kwarg kw ''thumbnail'' (JStr '''')"
    and "JStr (image e) = kwarg kw ''image'' (JStr '''')"
    and "JBool (timestamp e) = kwarg kw ''timestamp'' (JBool False)"
proof -
  from assms obtain fs where e: "Embed_init kw fs = Inr (Some e)"
    by (auto simp: decode_item_def split: sum.splits)
  then show "JStr (title e) = kwarg kw ''title'' (JStr '''')"
    and "JStr (description e) = kwarg kw ''description'' (JStr '''')"
    and "JStr (color e) = kwarg kw ''color'' (JStr ''#5865F2'')"
    and "JStr (Embed.url e) = kwarg kw ''url'' (JStr '''')"
    and "JStr (footer e) = kwarg kw ''footer'' (JStr '''')"
    and "JStr (footer_icon e) = kwarg kw ''footer_icon'' (JStr '''')"
    and "JStr (author e) = kwarg kw ''author'' (JStr '''')"
    and "JStr (author_icon e) = kwarg kw ''author_icon'' (JStr '''')"
    and "JStr (author_url e) = kwarg kw ''author_url'' (JStr '''')"
    and "JStr (thumbnail e) = kwarg kw ''thumbnail'' (JStr '''')"
    and "JStr (image e) = kwarg kw ''image'' (JStr '''')"
    and "JBool (timestamp e) = kwarg kw ''timestamp'' (JBool False)"
    by (auto simp: Embed_init_def bind_eq_Some_conv as_str_Some as_bool_Some split: if_splits)
qed

lemma load_history_raises:
  "list_ex (\<lambda>x. isl (decode_item x)) items \<Longrightarrow> load_history (Content (JList items)) h = Some []"
  using build_all_raises [of decode_item items]
  by (auto simp: load_history_def iterate_def split: sum.splits)

lemma field_raises_TypeError: "EmbedField_init f = Inl err \<Longrightarrow> err = TypeError"
  by (auto simp: EmbedField_init_def split: json.splits if_splits)

lemma build_all_error:
  "(\<And>x err. f x = Inl err \<Longrightarrow> err = e) \<Longrightarrow> build_all f xs = Inl err \<Longrightarrow> err = e"
  by (induction xs) (auto split: sum.splits)

lemma build_all_member_raises:
  "x \<in> set xs \<Longrightarrow> isl (f x) \<Longrightarrow> isl (build_all f xs)"
  by (induction xs) (auto split: sum.splits)

lemma decode_raises_TypeError: "decode_item (JObj kw) = Inl err \<Longrightarrow> err = TypeError"
  using build_all_error [of EmbedField_init TypeError] field_raises_TypeError
  by (auto simp: decode_item_def iterate_def Embed_init_def split: sum.splits json.splits if_splits)

lemma unknown_key_TypeError:
  assumes "\<not> list_all (\<lambda>k. k \<in> set Embed_params) (map fst kw)"
  shows "decode_item (JObj kw) = Inl TypeError"
proof -
  obtain err where "decode_item (JObj kw) = Inl err"
    using unknown_key_raises [OF assms] by (cases "decode_item (JObj kw)") auto
  then show ?thesis using decode_raises_TypeError by blast
qed

lemma bad_field_raises:
  "\<not> list_all (\<lambda>k. k \<in> set [''name'', ''value'', ''inline'']) (map fst fkw)
   \<or> map_of fkw ''name'' = None \<or> map_of fkw ''value'' = None \<Longrightarrow>
   EmbedField_init (JObj fkw) = Inl TypeError"
  by (auto simp: EmbedField_init_def)

lemma bad_field_TypeError:
  assumes "kwarg kw ''fields'' (JList []) = JList fl" and "JObj fkw \<in> set fl"
    and "\<not> list_all (\<lambda>k. k \<in> set [''name'', ''value'', ''inline'']) (map fst fkw)
         \<or> map_of fkw ''name'' = None \<or> map_of fkw ''value'' = None"
  shows "decode_item (JObj kw) = Inl TypeError"
proof -
  have "isl (build_all EmbedField_init fl)"
    using build_all_member_raises [OF assms(2), of EmbedField_init] bad_field_raises [OF assms(3)]
    by simp
  then obtain err where "decode_item (JObj kw) = Inl err"
    using assms(1) by (auto simp: decode_item_def iterate_def isl_def)
  then show ?thesis using decode_raises_TypeError by blast
qed

lemma stored_str_kwarg:
  "str_or_missing kw k \<Longrightarrow> as_str (kwarg kw k (JStr d)) = Some (stored_str kw k d)"
  by (auto simp: str_or_missing_def kwarg_def stored_str_def split: option.splits json.splits)

lemma stored_bool_kwarg:
  "bool_or_missing kw k \<Longrightarrow> as_bool (kwarg kw k (JBool d)) = Some (stored_bool kw k d)"
  by (auto simp: bool_or_missing_def kwarg_def stored_bool_def split: option.splits json.splits)

lemma stored_str_present:
  "map_of kw k = Some y \<Longrightarrow> str_or_missing kw k \<Longrightarrow>
   as_str (kwarg kw k JNull) = Some (stored_str kw k [])"
  by (auto simp: str_or_missing_def kwarg_def stored_str_def split: option.splits json.splits)

lemma well_formed_field_decodes:
  "well_formed_field f \<Longrightarrow> EmbedField_init f = Inr (Some (field_of f))"
  by (cases f)
     (auto simp: EmbedField_init_def stored_str_present stored_bool_kwarg)

lemma well_formed_fields_decode:
  "list_all well_formed_field fl \<Longrightarrow> build_all EmbedField_init fl = Inr (Some (map field_of fl))"
  by (induction fl) (simp_all add: well_formed_field_decodes)

lemma stored_list_kwarg:
  "list_or_missing kw k \<Longrightarrow> iterate (kwarg kw k (JList [])) = Inr (stored_list kw k)"
  by (auto simp: list_or_missing_def kwarg_def stored_list_def iterate_def
        split: option.splits json.splits)

lemma well_formed_decodes:
  assumes "well_formed kw"
  shows "decode_item (JObj kw) = Inr (Some (embed_of kw))"
proof -
  have keys: "list_all (\<lambda>k. k \<in> set Embed_params) (map fst kw)"
    and strs: "list_all (str_or_missing kw)
            [''title'', ''description'', ''color'', ''url'', ''footer'', ''footer_icon'',
             ''author'', ''author_icon'', ''author_url'', ''thumbnail'', ''image'']"
    and ts: "bool_or_missing kw ''timestamp''"
    and fl: "list_or_missing kw ''fields''"
    and fs: "list_all well_formed_field (stored_list kw ''fields'')"
    using assms by (simp_all add: well_formed_def)
  have fields: "build_all EmbedField_init (stored_list kw ''fields'')
                  = Inr (Some (map field_of (stored_list kw ''fields'')))"
    by (rule well_formed_fields_decode [OF fs])
  have init: "Embed_init kw (Some (map field_of (stored_list kw ''fields'')))
                = Inr (Some (embed_of kw))"
    using strs by (simp add: Embed_init_def keys stored_str_kwarg stored_bool_kwarg [OF ts]
                     embed_of_def)
  show ?thesis
    by (simp add: decode_item_def stored_list_kwarg [OF fl] fields init)
qed

lemma well_formed_history_loads:
  assumes "list_all well_formed docs"
  shows "load_history (Content (JList (map JObj docs))) h = Some (map embed_of docs)"
proof -
  have "build_all decode_item (map JObj docs) = Inr (Some (map embed_of docs))"
    using assms by (induction docs) (simp_all add: well_formed_decodes)
  then show ?thesis by (simp add: load_history_def iterate_def)
qed

text \<open>
  C6, as amended. A well-formed document, with any of its keys missing, decodes to the
  embed it stands for: the fields are the decoded elements of the stored list in its
  order, every other attribute is the stored value, or the default of the dataclass when
  the key is missing, and a field without \<^verbatim>\<open>inline\<close> is not inline; a list of
  well-formed documents loads as the list of their embeds. Conversely, whenever an item
  decodes, its attributes are the stored or default values. A key that is not an
  attribute of \<^verbatim>\<open>Embed\<close> makes the decoding of the item raise \<^verbatim>\<open>TypeError\<close>, and so
  does a field with another key than \<^verbatim>\<open>name\<close>, \<^verbatim>\<open>value\<close> and \<^verbatim>\<open>inline\<close> or
  without \<^verbatim>\<open>name\<close> or \<^verbatim>\<open>value\<close>: unknown keys are not ignored. When the decoding
  of any one item raises, the loaded history is empty.
\<close>

theorem decode_is_strict:
  "(well_formed kw \<longrightarrow> decode_item (JObj kw) = Inr (Some (embed_of kw)))
   \<and> (list_all well_formed docs \<longrightarrow>
        load_history (Content (JList (map JObj docs))) h = Some (map embed_of docs))
   \<and> (well_formed_field f \<longrightarrow> EmbedField_init f = Inr (Some (field_of f)))
   \<and> (well_formed_field (JObj fkw) \<and> map_of fkw ''inline'' = None \<longrightarrow>
        (\<exists>fld. EmbedField_init (JObj fkw) = Inr (Some fld) \<and> \<not> inline fld))
   \<and> (decode_item (JObj kw) = Inr (Some e) \<and> kwarg kw ''fields'' (JList []) = JList fl \<longrightarrow>
        map EmbedField_init fl = map (\<lambda>f. Inr (Some f)) (fields' e))
   \<and> (decode_item (JObj kw) = Inr (Some e) \<longrightarrow>
        JStr (title e) = kwarg kw ''title'' (JStr '''')
        \<and> JStr (description e) = kwarg kw ''description'' (JStr '''')
        \<and> JStr (color e) = kwarg kw ''color'' (JStr ''#5865F2'')
        \<and> JStr (Embed.url e) = kwarg kw ''url'' (JStr '''')
        \<and> JStr (footer e) = kwarg kw ''footer'' (JStr '''')
        \<and> JStr (footer_icon e) = kwarg kw ''footer_icon'' (JStr '''')
        \<and> JStr (author e) = kwarg kw ''author'' (JStr '''')
        \<and> JStr (author_icon e) = kwarg kw ''author_icon'' (JStr '''')
        \<and> JStr (author_url e) = kwarg kw ''author_url'' (JStr '''')
        \<and> JStr (thumbnail e) = kwarg kw ''thumbnail'' (JStr '''')
        \<and> JStr (image e) = kwarg kw ''image'' (JStr '''')
        \<and> JBool (timestamp e) = kwarg kw ''timestamp'' (JBool False))
   \<and> (\<not> list_all (\<lambda>k. k \<in> set Embed_params) (map fst kw) \<longrightarrow>
        decode_item (JObj kw) = Inl TypeError)
   \<and> (\<not> list_all (\<lambda>k. k \<in> set [''name'', ''value'', ''inline'']) (map fst fkw)
        \<or> map_of fkw ''name'' = None \<or> map_of fkw ''value'' = None \<longrightarrow>
        EmbedField_init (JObj fkw) = Inl TypeError
        \<and> (kwarg kw ''fields'' (JList []) = JList fl \<and> JObj fkw \<in> set fl \<longrightarrow>
             decode_item (JObj kw) = Inl TypeError))
   \<and> (list_ex (\<lambda>x. isl (decode_item x)) items \<longrightarrow>
        load_history (Content (JList items)) h = Some [])"
proof (intro conjI)
  show "well_formed kw \<longrightarrow> decode_item (JObj kw) = Inr (Some (embed_of kw))"
    by (simp add: well_formed_decodes)
  show "list_all well_formed docs \<longrightarrow>
        load_history (Content (JList (map JObj docs))) h = Some (map embed_of docs)"
    by (simp add: well_formed_history_loads)
  show "well_formed_field f \<longrightarrow> EmbedField_init f = Inr (Some (field_of f))"
    by (simp add: well_formed_field_decodes)
  show "well_formed_field (JObj fkw) \<and> map_of fkw ''inline'' = None \<longrightarrow>
        (\<exists>fld. EmbedField_init (JObj fkw) = Inr (Some fld) \<and> \<not> inline fld)"
    using well_formed_field_decodes [of "JObj fkw"] by (auto simp: stored_bool_def)
  show "decode_item (JObj kw) = Inr (Some e) \<and> kwarg kw ''fields'' (JList []) = JList fl \<longrightarrow>
        map EmbedField_init fl = map (\<lambda>f. Inr (Some f)) (fields' e)"
    using decoded_fields [of kw e fl] by blast
  show "decode_item (JObj kw) = Inr (Some e) \<longrightarrow>
        JStr (title e) = kwarg kw ''title'' (JStr '''')
        \<and> JStr (description e) = kwarg kw ''description'' (JStr '''')
        \<and> JStr (color e) = kwarg kw ''color'' (JStr ''#5865F2'')
        \<and> JStr (Embed.url e) = kwarg kw ''url'' (JStr '''')
        \<and> JStr (footer e) = kwarg kw ''footer'' (JStr '''')
        \<and> JStr (footer_icon e) = kwarg kw ''footer_icon'' (JStr '''')
        \<and> JStr (author e) = kwarg kw ''author'' (JStr '''')
        \<and> JStr (author_icon e) = kwarg kw ''author_icon'' (JStr '''')
        \<and> JStr (author_url e) = kwarg kw ''author_url'' (JStr '''')
        \<and> JStr (thumbnail e) = kwarg kw ''thumbnail'' (JStr '''')
        \<and> JStr (image e) = kwarg kw ''image'' (JStr '''')
        \<and> JBool (timestamp e) = kwarg kw ''timestamp'' (JBool False)"
    using decoded_scalars [of kw e] by blast
  show "\<not> list_all (\<lambda>k. k \<in> set Embed_params) (map fst kw) \<longrightarrow>
        decode_item (JObj kw) = Inl TypeError"
    using unknown_key_TypeError [of kw] by blast
  show "\<not> list_all (\<lambda>k. k \<in> set [''name'', ''value'', ''inline'']) (map fst fkw)
        \<or> map_of fkw ''name'' = None \<or> map_of fkw ''value'' = None \<longrightarrow>
        EmbedField_init (JObj fkw) = Inl TypeError
        \<and> (kwarg kw ''fields'' (JList []) = JList fl \<and> JObj fkw \<in> set fl \<longrightarrow>
             decode_item (JObj kw) = Inl TypeError)"
    using bad_field_raises [of fkw] bad_field_TypeError [of kw fl fkw] by blast
  show "list_ex (\<lambda>x. isl (decode_item x)) items \<longrightarrow>
        load_history (Content (JList items)) h = Some []"
    by (simp add: load_history_raises)
qed

text \<open>
  The claim as stated fails on an item with a key that a newer version could have
  written: without the key the item loads, with it the whole history is empty.
\<close>

theorem unknown_key_empties_history:
  "load_history (Content (JList [JObj [(''title'', JStr ''Hi'')]])) []
     = Some [Embed_default\<lparr>title := ''Hi''\<rparr>]
   \<and> load_history (Content (JList [JObj [(''title'', JStr ''Hi''), (''schema_version'', JInt 2)]])) []
     = Some []"
  by (simp add: load_history_def iterate_def decode_item_def kwarg_def Embed_init_def
        Embed_params_def Embed_default_def)

lemma well_formed_example:
  "well_formed [(''title'', JStr ''Hi''),
                (''fields'', JList [JObj [(''name'', JStr ''B''), (''value'', JStr ''2'')],
                                    JObj [(''name'', JStr ''A''), (''value'', JStr ''1''),
                                          (''inline'', JBool True)]])]"
  by (simp add: well_formed_def Embed_params_def str_or_missing_def bool_or_missing_def
        list_or_missing_def stored_list_def)

lemma embed_of_example:
  "embed_of [(''title'', JStr ''Hi''),
             (''fields'', JList [JObj [(''name'', JStr ''B''), (''value'', JStr ''2'')],
                                 JObj [(''name'', JStr ''A''), (''value'', JStr ''1''),
                                       (''inline'', JBool True)]])]
     = Embed_default\<lparr>title := ''Hi'',
         fields' := [\<lparr>name = ''B'', value = ''2'', inline = False\<rparr>,
                     \<lparr>name = ''A'', value = ''1'', inline = True\<rparr>]\<rparr>"
  by (simp add: embed_of_def stored_str_def stored_bool_def stored_list_def Embed_default_def)

theorem decode_is_strict_witness:
  "well_formed [(''title'', JStr ''Hi''),
                (''fields'', JList [JObj [(''name'', JStr ''B''), (''value'', JStr ''2'')],
                                    JObj [(''name'', JStr ''A''), (''value'', JStr ''1''),
                                          (''inline'', JBool True)]])]
   \<and> decode_item (JObj [(''title'', JStr ''Hi''),
                      (''fields'', JList [JObj [(''name'', JStr ''B''), (''value'', JStr ''2'')],
                                          JObj [(''name'', JStr ''A''), (''value'', JStr ''1''),
                                                (''inline'', JBool True)]])])
     = Inr (Some (Embed_default\<lparr>title := ''Hi'',
                    fields' := [\<lparr>name = ''B'', value = ''2'', inline = False\<rparr>,
                                \<lparr>name = ''A'', value = ''1'', inline = True\<rparr>]\<rparr>))
   \<and> well_formed []
   \<and> decode_item (JObj []) = Inr (Some Embed_default)
   \<and> \<not> list_all (\<lambda>k. k \<in> set Embed_params) (map fst [(''title'', JStr ''Hi''), (''schema_version'', JInt 2)])
   \<and> decode_item (JObj [(''title'', JStr ''Hi''), (''schema_version'', JInt 2)]) = Inl TypeError
   \<and> decode_item (JObj [(''fields'', JList [JObj [(''name'', JStr ''A''), (''value'', JStr ''1''),
                                                (''colour'', JStr ''red'')]])])
       = Inl TypeError
   \<and> list_ex (\<lambda>x. isl (decode_item x))
        [asdict Embed_default, JObj [(''title'', JStr ''Hi''), (''schema_version'', JInt 2)]]
   \<and> load_history
        (Content (JList [asdict Embed_default,
                         JObj [(''title'', JStr ''Hi''), (''schema_version'', JInt 2)]])) []
       = Some []"
proof -
  let ?good = "[(''title'', JStr ''Hi''),
                (''fields'', JList [JObj [(''name'', JStr ''B''), (''value'', JStr ''2'')],
                                    JObj [(''name'', JStr ''A''), (''value'', JStr ''1''),
                                          (''inline'', JBool True)]])]"
  let ?bad = "[(''title'', JStr ''Hi''), (''schema_version'', JInt 2)]"
  let ?badf = "[(''name'', JStr ''A''), (''value'', JStr ''1''), (''colour'', JStr ''red'')]"
  have a: "decode_item (JObj ?good) = Inr (Some (embed_of ?good))"
    using decode_is_strict [where kw = ?good] well_formed_example by blast
  have e: "well_formed []"
    by (simp add: well_formed_def str_or_missing_def bool_or_missing_def list_or_missing_def
          stored_list_def)
  with decode_is_strict [where kw = "[]"] have "decode_item (JObj []) = Inr (Some (embed_of []))"
    by blast
  then have e': "decode_item (JObj []) = Inr (Some Embed_default)"
    by (simp add: embed_of_def stored_str_def stored_bool_def stored_list_def Embed_default_def)
  have b: "\<not> list_all (\<lambda>k. k \<in> set Embed_params) (map fst ?bad)"
    by (simp add: Embed_params_def)
  with decode_is_strict [where kw = ?bad] have c: "decode_item (JObj ?bad) = Inl TypeError"
    by blast
  have "\<not> list_all (\<lambda>k. k \<in> set [''name'', ''value'', ''inline'']) (map fst ?badf)"
    by simp
  moreover have "kwarg [(''fields'', JList [JObj ?badf])] ''fields'' (JList []) = JList [JObj ?badf]"
    by (simp add: kwarg_def)
  ultimately have f: "decode_item (JObj [(''fields'', JList [JObj ?badf])]) = Inl TypeError"
    using decode_is_strict
            [where kw = "[(''fields'', JList [JObj ?badf])]" and fkw = ?badf and fl = "[JObj ?badf]"]
    by simp
  have d: "list_ex (\<lambda>x. isl (decode_item x)) [asdict Embed_default, JObj ?bad]"
    using c by simp
  with decode_is_strict [where items = "[asdict Embed_default, JObj ?bad]" and h = "[]"]
  have l: "load_history (Content (JList [asdict Embed_default, JObj ?bad])) [] = Some []"
    by blast
  from well_formed_example a embed_of_example e e' b c f d l show ?thesis by simp
qed

section \<open>The history after sends\<close>

lemma mutate_simps:
  "current_embed (mutate f a) = current_embed a"
  "history (mutate f a) = history a"
  "history_file (mutate f a) = history_file a"
  "length (heap (mutate f a)) = length (heap a)"
  by (simp_all add: mutate_def)

lemma mutate_current:
  "current_embed a < length (heap a) \<Longrightarrow> heap (mutate f a) ! current_embed a = f (heap a ! current_embed a)"
  by (simp add: mutate_def)

lemma allocated_mutate: "allocated a \<Longrightarrow> allocated (mutate f a)"
  by (simp add: allocated_def mutate_simps)

lemma allocated_replace: "allocated a \<Longrightarrow> allocated (replace_current e a)"
  by (auto simp: allocated_def replace_current_def list_all_iff)

lemma append_copy_simps:
  "current_embed (append_copy w a) = current_embed a"
  "history (append_copy w a) = history a @ [length (heap a)]"
  "heap (append_copy w a) = heap a @ [heap a ! current_embed a]"
  "history_file (append_copy Written a) =
     Content (JList (map asdict
       (drop (length (history a) + 1 - 50) (history_embeds (append_copy Written a)))))"
  by (simp_all add: append_copy_def Let_def save_history_def history_embeds_def)

lemma allocated_append_copy: "allocated a \<Longrightarrow> allocated (append_copy w a)"
  by (auto simp: allocated_def append_copy_simps list_all_iff sorted_wrt_append)

text \<open>The two ways a use of the send button ends.\<close>

lemma press_send_cases:
  assumes "current_embed a < length (heap a)"
  shows "press_send py_str json_dumps s a =
           (if delivered s (sync_embed_from_ui (entered s) (heap a ! current_embed a))
            then append_copy (written s) (mutate (sync_embed_from_ui (entered s)) a)
            else mutate (sync_embed_from_ui (entered s)) a)"
proof -
  let ?a = "mutate (sync_embed_from_ui (entered s)) a"
  have cur: "heap ?a ! current_embed ?a = sync_embed_from_ui (entered s) (heap a ! current_embed a)"
    using assms by (simp add: mutate_simps mutate_current)
  show ?thesis
    unfolding press_send_def Let_def cur delivered_def
    by (auto simp: send_webhook_def cur isl_def split: option.splits sum.splits posted.splits)
qed

lemma card_in_history: "i < length (rev (drop k h)) \<Longrightarrow> rev (drop k h) ! i \<in> set h"
  using nth_mem [of i "rev (drop k h)"] set_drop_subset [of k h] by auto

lemma handle_allocated: "allocated a \<Longrightarrow> allocated (handle py_str json_dumps ev a)"
proof (cases ev)
  case (Send s)
  assume a: "allocated a"
  then have "current_embed a < length (heap a)" by (simp add: allocated_def)
  then show ?thesis
    using a by (simp add: Send press_send_cases allocated_mutate allocated_append_copy)
next
  case (Restore i)
  assume "allocated a"
  then show ?thesis
    using card_in_history [of i "length (history a) - 20" "history a"]
    by (auto simp: Restore allocated_def list_all_iff Let_def)
next
  case (Clear_history w)
  assume "allocated a"
  then show ?thesis by (simp add: Clear_history allocated_def Let_def)
next
  case (Sync u)
  assume "allocated a"
  then show ?thesis by (simp add: Sync allocated_mutate)
next
  case (Edit_fields fs)
  assume "allocated a"
  then show ?thesis by (simp add: Edit_fields allocated_mutate)
next
  case Clear_all
  assume "allocated a"
  then show ?thesis by (simp add: Clear_all allocated_replace)
next
  case (Load_template e)
  assume "allocated a"
  then show ?thesis by (simp add: Load_template allocated_replace)
qed

lemma handle_count:
  assumes "reliable ev" and "allocated a" and "length (history a) = n"
    and "length (entries (history_file a)) = min n 50"
  shows "length (history (handle py_str json_dumps ev a)) = tally ev a n
         \<and> length (entries (history_file (handle py_str json_dumps ev a))) = min (tally ev a n) 50"
proof (cases ev)
  case (Send s)
  have cur: "current_embed a < length (heap a)" using assms(2) by (simp add: allocated_def)
  have w: "written s = Written" using assms(1) by (simp add: Send)
  show ?thesis
    using assms(3,4)
    by (auto simp: Send press_send_cases [OF cur] w append_copy_simps mutate_simps entries_def
          history_embeds_def)
next
  case (Clear_history w)
  then show ?thesis
    using assms(1) by (simp add: Let_def save_history_def history_embeds_def entries_def)
qed (use assms in \<open>auto simp: mutate_simps replace_current_def Let_def\<close>)

lemma run_count:
  "list_all reliable evs \<Longrightarrow> allocated a \<Longrightarrow> length (history a) = n \<Longrightarrow>
   length (entries (history_file a)) = min n 50 \<Longrightarrow>
   allocated (run py_str json_dumps evs a)
   \<and> length (history (run py_str json_dumps evs a)) = delivered_sends py_str json_dumps evs a n
   \<and> length (entries (history_file (run py_str json_dumps evs a)))
       = min (delivered_sends py_str json_dumps evs a n) 50"
proof (induction evs arbitrary: a n)
  case Nil
  then show ?case by simp
next
  case (Cons ev evs)
  then have ev: "reliable ev" and evs: "list_all reliable evs" by simp_all
  note step = handle_count [OF ev Cons.prems(2,3,4), of py_str json_dumps]
  show ?case
    using Cons.IH [OF evs handle_allocated [OF Cons.prems(2)], of py_str json_dumps ev "tally ev a n"]
      step
    by simp
qed

lemma first_start_allocated: "allocated first_start"
  by (simp add: first_start_def allocated_def)

text \<open>
  The part of the claim about the number of entries holds: started without a history
  file, whatever the user does in between, the file has \<open>min N 50\<close> entries, \<open>N\<close> being
  the number of sends delivered since the history was last cleared.
\<close>

lemma history_file_count:
  assumes "list_all reliable evs"
  shows "length (entries (history_file (run py_str json_dumps evs first_start)))
           = min (delivered_sends py_str json_dumps evs first_start 0) 50"
  using run_count [OF assms first_start_allocated, of 0 py_str json_dumps]
  by (simp add: first_start_def entries_def)

text \<open>
  Right after a delivered send the file is the document of the last 50 history objects as
  they are in memory, and the last of them is a copy of the embed just sent.
\<close>

lemma saved_after_send:
  assumes "allocated a" and "written s = Written"
    and "delivered s (sync_embed_from_ui (entered s) (heap a ! current_embed a))"
  shows "entries (history_file (press_send py_str json_dumps s a))
           = map asdict (drop (length (history a) + 1 - 50)
               (history_embeds (press_send py_str json_dumps s a)))"
    and "last (history_embeds (press_send py_str json_dumps s a))
           = sync_embed_from_ui (entered s) (heap a ! current_embed a)"
proof -
  have cur: "current_embed a < length (heap a)" using assms(1) by (simp add: allocated_def)
  show "entries (history_file (press_send py_str json_dumps s a))
           = map asdict (drop (length (history a) + 1 - 50)
               (history_embeds (press_send py_str json_dumps s a)))"
    by (simp add: press_send_cases [OF cur] assms(2,3) append_copy_simps mutate_simps entries_def)
  show "last (history_embeds (press_send py_str json_dumps s a))
           = sync_embed_from_ui (entered s) (heap a ! current_embed a)"
    using cur
    by (simp add: press_send_cases [OF cur] assms(3) history_embeds_def append_copy_simps
          mutate_simps mutate_current nth_append)
qed

text \<open>
  No event changes an object other than the current one, and the current object is a
  history entry only after a restore.
\<close>

lemma handle_frame:
  "r < length (heap a) \<Longrightarrow> r \<noteq> current_embed a \<Longrightarrow> allocated a \<Longrightarrow>
   heap (handle py_str json_dumps ev a) ! r = heap a ! r"
proof (cases ev)
  case (Send s)
  assume r: "r < length (heap a)" "r \<noteq> current_embed a" and a: "allocated a"
  then have cur: "current_embed a < length (heap a)" by (simp add: allocated_def)
  show ?thesis
    using r by (simp add: Send press_send_cases [OF cur] append_copy_simps nth_append mutate_simps)
                (simp add: mutate_def)
qed (auto simp: mutate_def replace_current_def nth_append Let_def)

lemma run_no_alias:
  "list_all (\<lambda>ev. \<not> is_restore ev) evs \<Longrightarrow> allocated a \<Longrightarrow>
   current_embed a \<notin> set (history a) \<Longrightarrow>
   current_embed (run py_str json_dumps evs a) \<notin> set (history (run py_str json_dumps evs a))"
proof (induction evs arbitrary: a)
  case Nil
  then show ?case by simp
next
  case (Cons ev evs)
  then have ev: "\<not> is_restore ev" and evs: "list_all (\<lambda>ev. \<not> is_restore ev) evs" by simp_all
  have cur: "current_embed a < length (heap a)"
    and hist: "\<forall>r\<in>set (history a). r < length (heap a)"
    using Cons.prems(2) by (simp_all add: allocated_def list_all_iff)
  have "current_embed (handle py_str json_dumps ev a)
          \<notin> set (history (handle py_str json_dumps ev a))"
  proof (cases ev)
    case (Send s)
    show ?thesis
      using Cons.prems(3) cur
      by (auto simp: Send press_send_cases [OF cur] append_copy_simps mutate_simps)
  next
    case (Restore i)
    then show ?thesis using ev by simp
  qed (use Cons.prems(3) hist in \<open>auto simp: mutate_simps replace_current_def Let_def\<close>)
  then show ?case
    using Cons.IH [OF evs handle_allocated [OF Cons.prems(2)]] by simp
qed

lemma sync_titled:
  "sync_embed_from_ui (entered (send_titled t)) e
     = Embed_default\<lparr>title := strip t, fields' := fields' e\<rparr>"
  by (cases e) (simp add: sync_embed_from_ui_def send_titled_def Embed_default_def strip_Nil)

lemma default_colour_parses: "int16 (lstrip_hash ''#5865F2'') = Inr 5793266"
  by (simp add: lstrip_hash_def int16_def startswith_def int_space_def digit_value_def)

lemma delivered_titled:
  assumes "length (strip t) \<le> 256"
  shows "delivered (send_titled t) (Embed_default\<lparr>title := strip t\<rparr>)"
proof -
  have v: "Embed_validate (Embed_default\<lparr>title := strip t\<rparr>) = []"
    using assms
    by (simp add: Embed_validate_def Embed_default_def append_if_def MAX_TITLE_def
          MAX_FIELDS_def)
  have d: "\<not> isl (to_dict ''2024-01-01T00:00:00'' (Embed_default\<lparr>title := strip t\<rparr>))"
    using to_dict_returns [of "Embed_default\<lparr>title := strip t\<rparr>" 5793266 "''2024-01-01T00:00:00''"]
    by (auto simp: Embed_default_def default_colour_parses)
  show ?thesis
    using d by (simp add: delivered_def v) (simp add: send_titled_def)
qed

text \<open>A delivered send of an embed with a title alone, from a state whose current object has no fields.\<close>

lemma press_send_titled:
  assumes "current_embed a < length (heap a)" and "fields' (heap a ! current_embed a) = []"
    and "length (strip t) \<le> 256"
  shows "press_send py_str json_dumps (send_titled t) a
           = append_copy Written (mutate (\<lambda>e. Embed_default\<lparr>title := strip t\<rparr>) a)"
proof -
  have s: "sync_embed_from_ui (entered (send_titled t)) (heap a ! current_embed a)
             = Embed_default\<lparr>title := strip t\<rparr>"
    by (simp add: sync_titled assms(2) Embed_default_def)
  have m: "mutate (sync_embed_from_ui (entered (send_titled t))) a
             = mutate (\<lambda>e. Embed_default\<lparr>title := strip t\<rparr>) a"
    by (simp add: mutate_def s)
  have w: "written (send_titled t) = Written" by (simp add: send_titled_def)
  show ?thesis
    by (simp add: press_send_cases [OF assms(1)] s delivered_titled [OF assms(3)] m w)
qed

lemma strip_letters: "strip ''A'' = ''A''" "strip ''B'' = ''B''" "strip ''C'' = ''C''"
  by (simp_all add: strip_def isspace_def)

text \<open>
  C8. The claim says that the file keeps the most recent snapshots. The number of entries
  is as it says (\<open>history_file_count\<close>) and the last entry is the embed just sent
  (\<open>saved_after_send\<close>), but an older entry is not always the snapshot that was sent:
  \<^verbatim>\<open>restore_from_history\<close> makes the history entry itself the current embed, without
  the copy that \<^verbatim>\<open>send_webhook\<close> takes, and the next synchronisation writes into it.
  After the sends of A and B the file holds A, B; after restoring A, the second card, and
  sending C it holds C, B, C.
\<close>

theorem restored_entry_is_overwritten:
  "entries (history_file (run py_str json_dumps
      [Send (send_titled ''A''), Send (send_titled ''B'')] first_start))
     = [asdict (Embed_default\<lparr>title := ''A''\<rparr>), asdict (Embed_default\<lparr>title := ''B''\<rparr>)]
   \<and> entries (history_file (run py_str json_dumps
      [Send (send_titled ''A''), Send (send_titled ''B''), Restore 1, Send (send_titled ''C'')]
      first_start))
     = [asdict (Embed_default\<lparr>title := ''C''\<rparr>), asdict (Embed_default\<lparr>title := ''B''\<rparr>),
        asdict (Embed_default\<lparr>title := ''C''\<rparr>)]"
proof -
  let ?A = "Embed_default\<lparr>title := ''A''\<rparr>"
  let ?B = "Embed_default\<lparr>title := ''B''\<rparr>"
  let ?C = "Embed_default\<lparr>title := ''C''\<rparr>"
  have f: "fields' Embed_default = []" by (simp add: Embed_default_def)
  have a1: "press_send py_str json_dumps (send_titled ''A'') first_start
          = \<lparr>heap = [?A, ?A], current_embed = 0, history = [1],
             history_file = Content (JList [asdict ?A])\<rparr>"
    by (subst press_send_titled)
       (simp_all add: first_start_def f strip_letters append_copy_def mutate_def
          history_embeds_def save_history_def)
  have a2: "press_send py_str json_dumps (send_titled ''B'')
             \<lparr>heap = [?A, ?A], current_embed = 0, history = [1],
              history_file = Content (JList [asdict ?A])\<rparr>
          = \<lparr>heap = [?B, ?A, ?B], current_embed = 0, history = [1, 2],
             history_file = Content (JList [asdict ?A, asdict ?B])\<rparr>"
    by (subst press_send_titled)
       (simp_all add: f strip_letters append_copy_def mutate_def
          history_embeds_def save_history_def)
  have a3: "press_send py_str json_dumps (send_titled ''C'')
             \<lparr>heap = [?B, ?A, ?B], current_embed = 1, history = [1, 2],
              history_file = Content (JList [asdict ?A, asdict ?B])\<rparr>
          = \<lparr>heap = [?B, ?C, ?B, ?C], current_embed = 1, history = [1, 2, 3],
             history_file = Content (JList [asdict ?C, asdict ?B, asdict ?C])\<rparr>"
    by (subst press_send_titled)
       (simp_all add: f strip_letters append_copy_def mutate_def
          history_embeds_def save_history_def)
  show ?thesis
    by (simp add: a1 a2 [simplified] a3 [simplified] entries_def)
qed

theorem restored_entry_is_overwritten_witness:
  "entries (history_file (run (\<lambda>v. '''') (\<lambda>v. '''')
      [Send (send_titled ''A''), Send (send_titled ''B''), Restore 1, Send (send_titled ''C'')]
      first_start))
     \<noteq> [asdict (Embed_default\<lparr>title := ''A''\<rparr>), asdict (Embed_default\<lparr>title := ''B''\<rparr>),
        asdict (Embed_default\<lparr>title := ''C''\<rparr>)]"
  using restored_entry_is_overwritten [of "\<lambda>v. ''''" "\<lambda>v. ''''"]
  by (simp add: asdict_def)

section \<open>The outcome of a send\<close>

lemma send_Inr:
  assumes "send webhook_entry username_entry avatar_entry = Inr (u, username, avatar_url)"
  shows "u = strip webhook_entry" and "username = strip username_entry"
    and "avatar_url = strip avatar_entry"
  using assms by (auto simp: send_def Let_def split: if_splits)

lemma build_payload_eq:
  "build_payload embed_dict username avatar_url =
     [(''embeds'', JList [JObj embed_dict])]
     @ (if username \<noteq> [] then [(''username'', JStr username)] else [])
     @ (if avatar_url \<noteq> [] then [(''avatar_url'', JStr avatar_url)] else [])"
  by (simp add: build_payload_def put_def)

lemma error_msg_cases:
  "body_json r = Some (JObj error_json) \<Longrightarrow>
   error_msg py_str json_dumps r =
     cross_mark @ '' Discord returned an error:\<newline>\<newline>Status Code: ''
       @ str_int (status_code r) @ ''\<newline>\<newline>Error: ''
       @ (case map_of error_json ''message'' of
            Some (JStr m) \<Rightarrow> m | Some v \<Rightarrow> py_str v | None \<Rightarrow> ''Unknown error'')
       @ ''\<newline>\<newline>''
       @ (case map_of error_json ''errors'' of
            Some errors \<Rightarrow> ''Details:\<newline>'' @ json_dumps errors | None \<Rightarrow> [])"
  "(\<And>d. body_json r \<noteq> Some (JObj d)) \<Longrightarrow>
   error_msg py_str json_dumps r =
     cross_mark @ '' Discord returned an error:\<newline>\<newline>Status Code: ''
       @ str_int (status_code r) @ ''\<newline>\<newline>Response: '' @ take 300 (text r)"
  by (simp_all add: error_msg_def Let_def kwarg_def format_value_def
        split: option.splits json.splits)

text \<open>
  What the claim says of the dispatch holds whenever \<^verbatim>\<open>to_dict\<close> returns. When the
  dialog has accepted its entries, \<^verbatim>\<open>send_webhook\<close> then posts exactly one request,
  to the trimmed URL, with the payload \<^verbatim>\<open>embeds\<close> (the one embed), \<^verbatim>\<open>username\<close>
  and \<^verbatim>\<open>avatar_url\<close>, the last two present exactly when the entry is not blank. On
  status 200 or 204 it shows "Success", appends a copy of the embed to the history and
  saves the history. On any other status it shows "Discord Error" and leaves the state
  alone; the text carries the status code and, when the body is a JSON object, its
  \<^verbatim>\<open>message\<close> ("Unknown error" when the object has none) and the \<^verbatim>\<open>errors\<close>
  detail if any, and otherwise the first 300 characters of the raw body. When the POST
  raises it shows "Network Error" with the text of the exception and leaves the state
  alone.
\<close>

lemma dispatch_when_payload_builds:
  assumes "to_dict now (heap a ! current_embed a) = Inr embed_dict"
    and "send webhook_entry username_entry avatar_entry = Inr (u, username, avatar_url)"
  shows
    "build_payload embed_dict username avatar_url =
       [(''embeds'', JList [JObj embed_dict])]
       @ (if strip username_entry \<noteq> [] then [(''username'', JStr (strip username_entry))] else [])
       @ (if strip avatar_entry \<noteq> [] then [(''avatar_url'', JStr (strip avatar_entry))] else [])
     \<and> (status_code r = 200 \<or> status_code r = 204 \<longrightarrow>
          send_webhook py_str json_dumps now (u, username, avatar_url) (Responded r) w a
            = Inr ([(u, build_payload embed_dict username avatar_url)],
                   Showinfo ''Success''
                     (check_mark @ '' Embed sent successfully!\<newline>\<newline>''
                        @ ''Check your Discord channel.''),
                   append_copy w a))
     \<and> (status_code r \<noteq> 200 \<and> status_code r \<noteq> 204 \<longrightarrow>
          send_webhook py_str json_dumps now (u, username, avatar_url) (Responded r) w a
            = Inr ([(u, build_payload embed_dict username avatar_url)],
                   Showerror ''Discord Error'' (error_msg py_str json_dumps r), a))
     \<and> (body_json r = Some (JObj error_json) \<and> map_of error_json ''message'' = Some (JStr m) \<longrightarrow>
          error_msg py_str json_dumps r =
            cross_mark @ '' Discord returned an error:\<newline>\<newline>Status Code: ''
              @ str_int (status_code r) @ ''\<newline>\<newline>Error: '' @ m @ ''\<newline>\<newline>''
              @ (case map_of error_json ''errors'' of
                   Some errors \<Rightarrow> ''Details:\<newline>'' @ json_dumps errors | None \<Rightarrow> []))
     \<and> (body_json r = Some (JObj error_json) \<and> map_of error_json ''message'' = None \<longrightarrow>
          error_msg py_str json_dumps r =
            cross_mark @ '' Discord returned an error:\<newline>\<newline>Status Code: ''
              @ str_int (status_code r) @ ''\<newline>\<newline>Error: Unknown error\<newline>\<newline>''
              @ (case map_of error_json ''errors'' of
                   Some errors \<Rightarrow> ''Details:\<newline>'' @ json_dumps errors | None \<Rightarrow> []))
     \<and> ((\<forall>d. body_json r \<noteq> Some (JObj d)) \<longrightarrow>
          error_msg py_str json_dumps r =
            cross_mark @ '' Discord returned an error:\<newline>\<newline>Status Code: ''
              @ str_int (status_code r) @ ''\<newline>\<newline>Response: '' @ take 300 (text r))
     \<and> send_webhook py_str json_dumps now (u, username, avatar_url) (Raised cause) w a
         = Inr ([(u, build_payload embed_dict username avatar_url)],
                Showerror ''Network Error''
                  (cross_mark @ '' Failed to send webhook:\<newline>\<newline>'' @ cause
                     @ ''\<newline>\<newline>Check your internet connection and webhook URL.''),
                a)"
proof -
  note s = send_Inr [OF assms(2)]
  have payload: "build_payload embed_dict username avatar_url =
       [(''embeds'', JList [JObj embed_dict])]
       @ (if strip username_entry \<noteq> [] then [(''username'', JStr (strip username_entry))] else [])
       @ (if strip avatar_entry \<noteq> [] then [(''avatar_url'', JStr (strip avatar_entry))] else [])"
    by (simp add: build_payload_eq s)
  have ok: "status_code r = 200 \<or> status_code r = 204 \<longrightarrow>
          send_webhook py_str json_dumps now (u, username, avatar_url) (Responded r) w a
            = Inr ([(u, build_payload embed_dict username avatar_url)],
                   Showinfo ''Success''
                     (check_mark @ '' Embed sent successfully!\<newline>\<newline>''
                        @ ''Check your Discord channel.''),
                   append_copy w a)"
    by (simp add: send_webhook_def assms(1))
  have rejected: "status_code r \<noteq> 200 \<and> status_code r \<noteq> 204 \<longrightarrow>
          send_webhook py_str json_dumps now (u, username, avatar_url) (Responded r) w a
            = Inr ([(u, build_payload embed_dict username avatar_url)],
                   Showerror ''Discord Error'' (error_msg py_str json_dumps r), a)"
    by (simp add: send_webhook_def assms(1))
  have msg: "body_json r = Some (JObj error_json) \<and> map_of error_json ''message'' = Some (JStr m) \<longrightarrow>
          error_msg py_str json_dumps r =
            cross_mark @ '' Discord returned an error:\<newline>\<newline>Status Code: ''
              @ str_int (status_code r) @ ''\<newline>\<newline>Error: '' @ m @ ''\<newline>\<newline>''
              @ (case map_of error_json ''errors'' of
                   Some errors \<Rightarrow> ''Details:\<newline>'' @ json_dumps errors | None \<Rightarrow> [])"
    by (simp add: error_msg_cases(1))
  have nomsg: "body_json r = Some (JObj error_json) \<and> map_of error_json ''message'' = None \<longrightarrow>
          error_msg py_str json_dumps r =
            cross_mark @ '' Discord returned an error:\<newline>\<newline>Status Code: ''
              @ str_int (status_code r) @ ''\<newline>\<newline>Error: Unknown error\<newline>\<newline>''
              @ (case map_of error_json ''errors'' of
                   Some errors \<Rightarrow> ''Details:\<newline>'' @ json_dumps errors | None \<Rightarrow> [])"
    by (simp add: error_msg_cases(1))
  have raw: "(\<forall>d. body_json r \<noteq> Some (JObj d)) \<longrightarrow>
          error_msg py_str json_dumps r =
            cross_mark @ '' Discord returned an error:\<newline>\<newline>Status Code: ''
              @ str_int (status_code r) @ ''\<newline>\<newline>Response: '' @ take 300 (text r)"
    using error_msg_cases(2) [of r py_str json_dumps] by blast
  have transport: "send_webhook py_str json_dumps now (u, username, avatar_url) (Raised cause) w a
         = Inr ([(u, build_payload embed_dict username avatar_url)],
                Showerror ''Network Error''
                  (cross_mark @ '' Failed to send webhook:\<newline>\<newline>'' @ cause
                     @ ''\<newline>\<newline>Check your internet connection and webhook URL.''),
                a)"
    by (simp add: send_webhook_def assms(1))
  from payload ok rejected msg nomsg raw transport show ?thesis by blast
qed

lemma send_example:
  "send ''https://discord.com/api/webhooks/1/t  '' '' bot '' '' ''
     = Inr (''https://discord.com/api/webhooks/1/t'', ''bot'', '''')"
  by code_simp

lemma to_dict_default:
  "to_dict ''2024-01-01T00:00:00'' (heap first_start ! current_embed first_start) = Inr [(''color'', JInt 5793266)]"
  by (simp add: first_start_def to_dict_def Embed_default_def put_def put_color_def http_def
        startswith_def lstrip_hash_def int16_def int_space_def digit_value_def)

lemma str_int_400: "str_int 400 = ''400''"
  by code_simp

lemma dispatch_examples:
  "to_dict ''2024-01-01T00:00:00'' (heap first_start ! current_embed first_start) = Inr [(''color'', JInt 5793266)]
   \<and> send ''https://discord.com/api/webhooks/1/t  '' '' bot '' '' ''
       = Inr (''https://discord.com/api/webhooks/1/t'', ''bot'', '''')
   \<and> send_webhook (\<lambda>v. '''') (\<lambda>v. '''') ''2024-01-01T00:00:00''
        (''https://discord.com/api/webhooks/1/t'', ''bot'', '''')
        (Responded \<lparr>status_code = 204, body_json = None, text = ''''\<rparr>) Written first_start
       = Inr ([(''https://discord.com/api/webhooks/1/t'',
                [(''embeds'', JList [JObj [(''color'', JInt 5793266)]]),
                 (''username'', JStr ''bot'')])],
              Showinfo ''Success''
                (check_mark @ '' Embed sent successfully!\<newline>\<newline>Check your Discord channel.''),
              \<lparr>heap = [Embed_default, Embed_default], current_embed = 0, history = [1],
               history_file = Content (JList [asdict Embed_default])\<rparr>)
   \<and> send_webhook (\<lambda>v. '''') (\<lambda>v. '''') ''2024-01-01T00:00:00''
        (''https://discord.com/api/webhooks/1/t'', ''bot'', '''')
        (Responded \<lparr>status_code = 400,
                     body_json = Some (JObj [(''message'', JStr ''Invalid Form Body'')]),
                     text = ''{\"message\": \"Invalid Form Body\"}''\<rparr>) Written first_start
       = Inr ([(''https://discord.com/api/webhooks/1/t'',
                [(''embeds'', JList [JObj [(''color'', JInt 5793266)]]),
                 (''username'', JStr ''bot'')])],
              Showerror ''Discord Error''
                (cross_mark @ '' Discord returned an error:\<newline>\<newline>Status Code: 400''
                   @ ''\<newline>\<newline>Error: Invalid Form Body\<newline>\<newline>''),
              first_start)"
proof -
  note t = dispatch_when_payload_builds [OF to_dict_default send_example, of _ "\<lambda>v. ''''" "\<lambda>v. ''''"]
  have p: "build_payload [(''color'', JInt 5793266)] ''bot'' ''''
             = [(''embeds'', JList [JObj [(''color'', JInt 5793266)]]), (''username'', JStr ''bot'')]"
    by (simp add: build_payload_eq)
  have a: "send_webhook (\<lambda>v. '''') (\<lambda>v. '''') ''2024-01-01T00:00:00''
        (''https://discord.com/api/webhooks/1/t'', ''bot'', '''')
        (Responded \<lparr>status_code = 204, body_json = None, text = ''''\<rparr>) Written first_start
       = Inr ([(''https://discord.com/api/webhooks/1/t'',
                [(''embeds'', JList [JObj [(''color'', JInt 5793266)]]),
                 (''username'', JStr ''bot'')])],
              Showinfo ''Success''
                (check_mark @ '' Embed sent successfully!\<newline>\<newline>Check your Discord channel.''),
              \<lparr>heap = [Embed_default, Embed_default], current_embed = 0, history = [1],
               history_file = Content (JList [asdict Embed_default])\<rparr>)"
    using t [of "\<lparr>status_code = 204, body_json = None, text = ''''\<rparr>" Written]
    by (simp add: p first_start_def save_history_def append_copy_def history_embeds_def)
  have b: "send_webhook (\<lambda>v. '''') (\<lambda>v. '''') ''2024-01-01T00:00:00''
        (''https://discord.com/api/webhooks/1/t'', ''bot'', '''')
        (Responded \<lparr>status_code = 400,
                     body_json = Some (JObj [(''message'', JStr ''Invalid Form Body'')]),
                     text = ''{\"message\": \"Invalid Form Body\"}''\<rparr>) Written first_start
       = Inr ([(''https://discord.com/api/webhooks/1/t'',
                [(''embeds'', JList [JObj [(''color'', JInt 5793266)]]),
                 (''username'', JStr ''bot'')])],
              Showerror ''Discord Error''
                (cross_mark @ '' Discord returned an error:\<newline>\<newline>Status Code: 400''
                   @ ''\<newline>\<newline>Error: Invalid Form Body\<newline>\<newline>''),
              first_start)"
    using t [of "\<lparr>status_code = 400,
                     body_json = Some (JObj [(''message'', JStr ''Invalid Form Body'')]),
                     text = ''{\"message\": \"Invalid Form Body\"}''\<rparr>" Written
                "[(''message'', JStr ''Invalid Form Body'')]" "''Invalid Form Body''"]
    by (simp add: p str_int_400)
  from to_dict_default send_example a b show ?thesis by blast
qed

lemma bad_hex_raises:
  "color e = ''#GGGGGG'' \<Longrightarrow> to_dict now e = Inl ValueError"
  by (simp add: to_dict_Inl startswith_def lstrip_hash_def int16_def int_space_def
        digit_value_def)

lemma sync_color:
  "color (sync_embed_from_ui u e)
     = (if strip (color_entry u) \<noteq> [] then strip (color_entry u) else ''#5865F2'')"
  by (simp add: sync_embed_from_ui_def)

text \<open>
  C7. The claim says that the dispatch builds the payload, posts once and classifies the
  outcome. It does not when the colour starts with \<^verbatim>\<open>#\<close> and is not hexadecimal:
  \<^verbatim>\<open>to_dict\<close> raises \<^verbatim>\<open>ValueError\<close> before the \<^verbatim>\<open>try\<close>, so for every reply of
  the webhook \<^verbatim>\<open>send_webhook\<close> raises, and a use of the send button with
  \<^verbatim>\<open>#GGGGGG\<close> in the colour entry does no more than synchronise the current embed:
  no request, no dialog, nothing appended to the history. Validation does not report
  such a colour.
\<close>

theorem send_webhook_raises_on_bad_hex:
  "(to_dict now (heap a ! current_embed a) = Inl err \<longrightarrow>
      send_webhook py_str json_dumps now data rep w a = Inl err)
   \<and> (color (heap a ! current_embed a) = ''#GGGGGG'' \<longrightarrow>
        send_webhook py_str json_dumps now data rep w a = Inl ValueError)
   \<and> (current_embed a < length (heap a)
        \<and> isl (to_dict (clock s) (sync_embed_from_ui (entered s) (heap a ! current_embed a))) \<longrightarrow>
        press_send py_str json_dumps s a = mutate (sync_embed_from_ui (entered s)) a)
   \<and> (current_embed a < length (heap a) \<and> strip (color_entry (entered s)) = ''#GGGGGG'' \<longrightarrow>
        press_send py_str json_dumps s a = mutate (sync_embed_from_ui (entered s)) a)
   \<and> Embed_validate (Embed_default\<lparr>color := ''#GGGGGG''\<rparr>) = []"
proof (intro conjI impI)
  assume "to_dict now (heap a ! current_embed a) = Inl err"
  then show "send_webhook py_str json_dumps now data rep w a = Inl err"
    by (cases data) (simp add: send_webhook_def)
next
  assume "color (heap a ! current_embed a) = ''#GGGGGG''"
  then show "send_webhook py_str json_dumps now data rep w a = Inl ValueError"
    by (cases data) (simp add: send_webhook_def bad_hex_raises)
next
  assume h: "current_embed a < length (heap a)
             \<and> isl (to_dict (clock s) (sync_embed_from_ui (entered s) (heap a ! current_embed a)))"
  then have "\<not> delivered s (sync_embed_from_ui (entered s) (heap a ! current_embed a))"
    by (simp add: delivered_def)
  then show "press_send py_str json_dumps s a = mutate (sync_embed_from_ui (entered s)) a"
    using h by (simp add: press_send_cases)
next
  assume h: "current_embed a < length (heap a) \<and> strip (color_entry (entered s)) = ''#GGGGGG''"
  then have "color (sync_embed_from_ui (entered s) (heap a ! current_embed a)) = ''#GGGGGG''"
    by (simp add: sync_color)
  then have "\<not> delivered s (sync_embed_from_ui (entered s) (heap a ! current_embed a))"
    by (simp add: delivered_def bad_hex_raises)
  then show "press_send py_str json_dumps s a = mutate (sync_embed_from_ui (entered s)) a"
    using h by (simp add: press_send_cases)
next
  show "Embed_validate (Embed_default\<lparr>color := ''#GGGGGG''\<rparr>) = []"
    by (simp add: Embed_validate_def Embed_default_def append_if_def MAX_FIELDS_def)
qed

theorem send_webhook_raises_on_bad_hex_witness:
  "color (heap (first_start\<lparr>heap := [Embed_default\<lparr>color := ''#GGGGGG''\<rparr>]\<rparr>)
            ! current_embed (first_start\<lparr>heap := [Embed_default\<lparr>color := ''#GGGGGG''\<rparr>]\<rparr>))
     = ''#GGGGGG''
   \<and> send_webhook (\<lambda>v. '''') (\<lambda>v. '''') ''2024-01-01T00:00:00''
        (''https://discord.com/api/webhooks/1/t'', '''', '''')
        (Responded \<lparr>status_code = 204, body_json = None, text = ''''\<rparr>) Written
        (first_start\<lparr>heap := [Embed_default\<lparr>color := ''#GGGGGG''\<rparr>]\<rparr>)
       = Inl ValueError
   \<and> current_embed first_start < length (heap first_start)
   \<and> strip (color_entry (entered
        ((send_titled ''A'')\<lparr>entered := (entered (send_titled ''A''))\<lparr>color_entry := ''#GGGGGG''\<rparr>\<rparr>)))
       = ''#GGGGGG''
   \<and> press_send (\<lambda>v. '''') (\<lambda>v. '''')
        ((send_titled ''A'')\<lparr>entered := (entered (send_titled ''A''))\<lparr>color_entry := ''#GGGGGG''\<rparr>\<rparr>)
        first_start
       = \<lparr>heap = [Embed_default\<lparr>title := ''A'', color := ''#GGGGGG''\<rparr>], current_embed = 0,
          history = [], history_file = Missing\<rparr>"
proof -
  let ?a = "first_start\<lparr>heap := [Embed_default\<lparr>color := ''#GGGGGG''\<rparr>]\<rparr>"
  let ?s = "(send_titled ''A'')\<lparr>entered := (entered (send_titled ''A''))\<lparr>color_entry := ''#GGGGGG''\<rparr>\<rparr>"
  have c: "color (heap ?a ! current_embed ?a) = ''#GGGGGG''"
    by (simp add: first_start_def)
  have r: "send_webhook (\<lambda>v. '''') (\<lambda>v. '''') ''2024-01-01T00:00:00''
             (''https://discord.com/api/webhooks/1/t'', '''', '''')
             (Responded \<lparr>status_code = 204, body_json = None, text = ''''\<rparr>) Written ?a
           = Inl ValueError"
    using send_webhook_raises_on_bad_hex
            [where a = ?a and py_str = "\<lambda>v. ''''" and json_dumps = "\<lambda>v. ''''"
               and now = "''2024-01-01T00:00:00''"
               and data = "(''https://discord.com/api/webhooks/1/t'', '''', '''')"
               and rep = "Responded \<lparr>status_code = 204, body_json = None, text = ''''\<rparr>"
               and w = Written]
    by (simp add: first_start_def)
  have l: "current_embed first_start < length (heap first_start)"
    by (simp add: first_start_def)
  have e: "strip (color_entry (entered ?s)) = ''#GGGGGG''"
    by (simp add: send_titled_def strip_def isspace_def)
  have "press_send (\<lambda>v. '''') (\<lambda>v. '''') ?s first_start
          = mutate (sync_embed_from_ui (entered ?s)) first_start"
    using send_webhook_raises_on_bad_hex
            [where a = first_start and s = ?s and py_str = "\<lambda>v. ''''" and json_dumps = "\<lambda>v. ''''"]
          l e
    by blast
  also have "\<dots> = \<lparr>heap = [Embed_default\<lparr>title := ''A'', color := ''#GGGGGG''\<rparr>],
                     current_embed = 0, history = [], history_file = Missing\<rparr>"
    by (simp add: mutate_def sync_embed_from_ui_def send_titled_def first_start_def
          Embed_default_def strip_def isspace_def)
  finally show ?thesis using c r l e by simp
qed

end
